theory Spec2Isabelle
  imports Complex_Main
begin

section \<open>Data model\<close>

text \<open>
  The tables of \<^verbatim>\<open>backend/models\<close>, one record per mapped class, with the columns that
  \<^verbatim>\<open>backend/routers/mrp.py\<close> reads or writes. Primary and foreign keys are Python
  integers (\<open>int\<close>), nullable foreign keys are \<open>int option\<close>. The \<^verbatim>\<open>Float\<close> columns of
  quantities are taken as real numbers, each row holding a value; rounding of floats is
  not part of the model. A \<^verbatim>\<open>DateTime\<close> is a \<open>datetime\<close> below. Field names carry a
  short prefix where two tables share a column name (\<^verbatim>\<open>id\<close>, \<^verbatim>\<open>quantity\<close>, \<^verbatim>\<open>name\<close>).
\<close>

text \<open>
  Python's \<^verbatim>\<open>datetime\<close> has a resolution of one microsecond and ranges from
  \<^verbatim>\<open>datetime.min\<close>, the first instant of year 1, to \<^verbatim>\<open>datetime.max\<close>, the last
  microsecond of year 9999. A \<open>datetime\<close> is the number of microseconds since
  \<^verbatim>\<open>datetime.min\<close>; the values that Python can hold are those in \<open>valid_datetime\<close>
  (\<^verbatim>\<open>date.max.toordinal()\<close> is 3652059).
\<close>

type_synonym datetime = int

definition us_per_day :: int where
  "us_per_day = 86400000000"

definition valid_datetime :: "datetime \<Rightarrow> bool" where
  "valid_datetime t \<longleftrightarrow> 0 \<le> t \<and> t < 3652059 * us_per_day"

text \<open>
  The lead-time factor of a request is a Python \<^verbatim>\<open>float\<close> that nothing validates
  (\<^verbatim>\<open>lead_time_factor: float = 1.0\<close>): a finite number, an infinity or \<^verbatim>\<open>nan\<close>.
\<close>

datatype pyfloat = Finite real | PosInf | NegInf | NaN

record InventoryItem =
  inv_id :: int
  item_code :: string
  inv_name :: string
  quantity_on_hand :: real
  reorder_point :: real

record BOM =
  bom_pk :: int
  bom_product_id :: int
  is_active :: bool

record BOMComponent =
  bc_id :: int
  bc_bom_id :: int
  component_id :: int
  bc_quantity :: real

record MPS =
  mps_pk :: int
  mps_name :: string

record MPSItem =
  mi_id :: int
  mi_mps_id :: int
  product_id :: int
  planned_date :: datetime
  mi_quantity :: real

record MRPRun =
  run_pk :: int
  run_name :: string
  run_mps_id :: int
  run_date :: datetime
  lead_time_factor :: pyfloat
  include_safety_stock :: bool

record MRPItem =
  mrp_id :: int
  mrp_run_id :: int
  mps_item_id :: "int option"
  item_id :: int
  bom_id :: "int option"
  required_date :: datetime
  gross_requirement :: real
  projected_on_hand :: real
  net_requirement :: real
  planned_order_release :: real
  planned_order_receipt :: real
  order_release_date :: datetime
  is_critical :: bool
  parent_id :: "int option"

text \<open>The request body of \<^verbatim>\<open>POST /mrp/\<close> (schema \<^verbatim>\<open>MRPRunCreate\<close>).\<close>

record MRPRunCreate =
  rc_name :: string
  rc_mps_id :: int
  rc_lead_time_factor :: pyfloat
  rc_include_safety_stock :: bool

text \<open>The database session: every table as the list of its rows, in table order.\<close>

record DB =
  inventory :: "InventoryItem list"
  boms :: "BOM list"
  bom_components :: "BOMComponent list"
  mps_table :: "MPS list"
  mps_items :: "MPSItem list"
  mrp_runs :: "MRPRun list"
  mrp_items :: "MRPItem list"

text \<open>
  The exceptions that the model follows: the \<^verbatim>\<open>HTTPException\<close> with status 404 that the
  handlers raise; Python's \<^verbatim>\<open>RecursionError\<close>, raised by the interpreter when the
  nesting of calls passes its recursion limit; and the \<^verbatim>\<open>OverflowError\<close> and
  \<^verbatim>\<open>ValueError\<close> that \<^verbatim>\<open>timedelta\<close> and the subtraction of dates raise. They are not
  all the ways in which a request can end: what the database driver raises when a row is
  flushed, for one, is outside the sources.
\<close>

datatype error = HTTP_404_NOT_FOUND | RecursionError | OverflowError | ValueError

section \<open>Queries\<close>

text \<open>\<^verbatim>\<open>db.query(InventoryItem).filter(InventoryItem.id == i).first()\<close>\<close>

definition get_item :: "DB \<Rightarrow> int \<Rightarrow> InventoryItem option" where
  "get_item db i = find (\<lambda>it. inv_id it = i) (inventory db)"

text \<open>\<^verbatim>\<open>db.query(BOM).filter(BOM.product_id == p, BOM.is_active == True).first()\<close>\<close>

definition active_bom :: "DB \<Rightarrow> int \<Rightarrow> BOM option" where
  "active_bom db p = find (\<lambda>b. bom_product_id b = p \<and> is_active b) (boms db)"

text \<open>\<^verbatim>\<open>db.query(BOMComponent).filter(BOMComponent.bom_id == b).all()\<close>\<close>

definition components_of :: "DB \<Rightarrow> int \<Rightarrow> BOMComponent list" where
  "components_of db b = filter (\<lambda>c. bc_bom_id c = b) (bom_components db)"

text \<open>The relationship \<^verbatim>\<open>MPS.schedule_items\<close>.\<close>

definition schedule_items :: "DB \<Rightarrow> MPS \<Rightarrow> MPSItem list" where
  "schedule_items db m = filter (\<lambda>l. mi_mps_id l = mps_pk m) (mps_items db)"

text \<open>
  \<^verbatim>\<open>db.add(x); db.flush()\<close>: the row receives its primary key, one more than the
  largest key of the table, and joins the session.
\<close>

definition fresh_id :: "int list \<Rightarrow> int" where
  "fresh_id ids = 1 + foldr max ids 0"

definition add_mrp_item :: "DB \<Rightarrow> MRPItem \<Rightarrow> MRPItem \<times> DB" where
  "add_mrp_item db m =
     (let m' = m\<lparr>mrp_id := fresh_id (map mrp_id (mrp_items db))\<rparr>
      in (m', db\<lparr>mrp_items := mrp_items db @ [m']\<rparr>))"

definition add_mrp_run :: "DB \<Rightarrow> MRPRun \<Rightarrow> MRPRun \<times> DB" where
  "add_mrp_run db r =
     (let r' = r\<lparr>run_pk := fresh_id (map run_pk (mrp_runs db))\<rparr>
      in (r', db\<lparr>mrp_runs := mrp_runs db @ [r']\<rparr>))"

section \<open>The MRP calculation\<close>

text \<open>
  \<^verbatim>\<open>hasattr(item, 'lead_time') and item.lead_time\<close>: the value of the attribute when the
  item has one. \<^verbatim>\<open>InventoryItem\<close> declares no column \<^verbatim>\<open>lead_time\<close> and \<^verbatim>\<open>None\<close> has no
  such attribute either, so the lookup finds nothing.
\<close>

definition lead_time_attr :: "InventoryItem option \<Rightarrow> real option" where
  "lead_time_attr item = None"

text \<open>
  \<^verbatim>\<open>lead_time_days * lead_time_factor\<close>, an \<^verbatim>\<open>int\<close> or \<^verbatim>\<open>float\<close> times a \<^verbatim>\<open>float\<close>.
\<close>

fun float_times :: "real \<Rightarrow> pyfloat \<Rightarrow> pyfloat" where
  "float_times x (Finite y) = Finite (x * y)"
| "float_times x PosInf = (if 0 < x then PosInf else if x < 0 then NegInf else NaN)"
| "float_times x NegInf = (if 0 < x then NegInf else if x < 0 then PosInf else NaN)"
| "float_times x NaN = NaN"

text \<open>Rounding to the nearest integer, a tie going to the even one, as \<^verbatim>\<open>timedelta\<close> rounds.\<close>

definition round_half_even :: "real \<Rightarrow> int" where
  "round_half_even x =
     (let f = \<lfloor>x\<rfloor>; r = x - of_int f
      in if r < 1 / 2 then f else if 1 / 2 < r then f + 1 else if even f then f else f + 1)"

text \<open>
  \<^verbatim>\<open>timedelta(days=x)\<close> for a float \<open>x\<close>, as a number of microseconds. The constructor
  raises \<^verbatim>\<open>ValueError\<close> for \<^verbatim>\<open>nan\<close> and \<^verbatim>\<open>OverflowError\<close> for an infinity; it rounds a
  finite \<open>x\<close> to the microsecond and raises \<^verbatim>\<open>OverflowError\<close> unless the days of the
  result (Python's floor division) have a magnitude of 999999999 at most. The product of
  \<open>x\<close> and the microseconds of a day is taken exactly; the constructor's own float
  arithmetic, whose error is far below a microsecond, is not followed.
\<close>

definition timedelta :: "pyfloat \<Rightarrow> error + int" where
  "timedelta days =
     (case days of
        NaN \<Rightarrow> Inl ValueError
      | PosInf \<Rightarrow> Inl OverflowError
      | NegInf \<Rightarrow> Inl OverflowError
      | Finite x \<Rightarrow>
          (let us = round_half_even (x * of_int us_per_day)
           in if - 999999999 \<le> us div us_per_day \<and> us div us_per_day \<le> 999999999
              then Inr us else Inl OverflowError))"

text \<open>
  \<^verbatim>\<open>d - delta\<close> for a \<^verbatim>\<open>datetime\<close> and a \<^verbatim>\<open>timedelta\<close>: \<^verbatim>\<open>OverflowError\<close> when the
  result is not a date that Python can hold.
\<close>

definition datetime_minus :: "datetime \<Rightarrow> int \<Rightarrow> error + datetime" where
  "datetime_minus d delta =
     (if valid_datetime (d - delta) then Inr (d - delta) else Inl OverflowError)"

definition calculate_release_date ::
      "datetime \<Rightarrow> InventoryItem option \<Rightarrow> pyfloat \<Rightarrow> error + datetime" where
  "calculate_release_date required item ltf =
     (let lead_time_days =
            (case lead_time_attr item of
               Some lt \<Rightarrow> if lt \<noteq> 0 then lt else 1
             | None \<Rightarrow> 1);
          adjusted_lead_time = float_times lead_time_days ltf
      in case timedelta adjusted_lead_time of
           Inl e \<Rightarrow> Inl e
         | Inr delta \<Rightarrow> datetime_minus required delta)"

text \<open>
  The row that \<^verbatim>\<open>process_bom_components\<close> builds for one component (the
  \<^verbatim>\<open>MRPItemModel(...)\<close> call with the requirement figures computed just before it).
  \<open>release\<close> is the value that \<^verbatim>\<open>calculate_release_date\<close> returned; when that call
  raises, no row is built (see the loop below). The primary key is assigned by
  \<open>add_mrp_item\<close>; the query for the component's own active BOM is a read and gives the
  same answer here and in the loop below.
\<close>

definition component_item ::
  "DB \<Rightarrow> BOMComponent \<Rightarrow> InventoryItem \<Rightarrow> MRPItem \<Rightarrow> int \<Rightarrow> datetime \<Rightarrow> real \<Rightarrow> datetime \<Rightarrow> bool
     \<Rightarrow> MRPItem" where
  "component_item db component item parent_mrp_item rid required parent_quantity release iss =
     (let gross_req = parent_quantity * bc_quantity component;
          safety_stock = (if iss \<and> reorder_point item \<noteq> 0 then reorder_point item else 0);
          on_hand = quantity_on_hand item;
          net_req = max 0 (gross_req + safety_stock - on_hand);
          component_bom = active_bom db (component_id component)
      in \<lparr>mrp_id = 0,
          mrp_run_id = rid,
          mps_item_id = None,
          item_id = component_id component,
          bom_id = map_option bom_pk component_bom,
          required_date = required,
          gross_requirement = gross_req,
          projected_on_hand = on_hand,
          net_requirement = net_req,
          planned_order_release = net_req,
          planned_order_receipt = net_req,
          order_release_date = release,
          is_critical = (net_req > 0 \<and> on_hand < gross_req),
          parent_id = Some (mrp_id parent_mrp_item)\<rparr>)"

text \<open>
  \<^verbatim>\<open>process_bom_components\<close> and its \<^verbatim>\<open>for component in components\<close> loop. The first
  argument is the number of nested calls the interpreter still allows: Python has no
  unbounded recursion, a call with none left raises \<^verbatim>\<open>RecursionError\<close>.
\<close>

fun process_bom_components ::
      "nat \<Rightarrow> DB \<Rightarrow> BOM \<Rightarrow> MRPItem \<Rightarrow> int \<Rightarrow> datetime \<Rightarrow> real \<Rightarrow> pyfloat \<Rightarrow> bool \<Rightarrow> error + DB"
  and process_components ::
      "nat \<Rightarrow> DB \<Rightarrow> BOMComponent list \<Rightarrow> MRPItem \<Rightarrow> int \<Rightarrow> datetime \<Rightarrow> real \<Rightarrow> pyfloat \<Rightarrow> bool
         \<Rightarrow> error + DB"
where
  "process_bom_components 0 db bom parent_mrp_item rid required parent_quantity ltf iss =
     Inl RecursionError"
| "process_bom_components (Suc d) db bom parent_mrp_item rid required parent_quantity ltf iss =
     process_components d db (components_of db (bom_pk bom))
       parent_mrp_item rid required parent_quantity ltf iss"
| "process_components d db [] parent_mrp_item rid required parent_quantity ltf iss = Inr db"
| "process_components d db (component # rest) parent_mrp_item rid required parent_quantity ltf iss =
     (case get_item db (component_id component) of
        None \<Rightarrow> process_components d db rest parent_mrp_item rid required parent_quantity ltf iss
      | Some item \<Rightarrow>
          (case calculate_release_date required (Some item) ltf of
             Inl e \<Rightarrow> Inl e
           | Inr release \<Rightarrow>
               (let (component_mrp_item, db') = add_mrp_item db
                      (component_item db component item parent_mrp_item rid required
                         parent_quantity release iss)
                in case active_bom db (component_id component) of
                     None \<Rightarrow>
                       process_components d db' rest
                         parent_mrp_item rid required parent_quantity ltf iss
                   | Some cb \<Rightarrow>
                       (case process_bom_components d db' cb component_mrp_item rid required
                               (planned_order_release component_mrp_item) ltf iss of
                          Inl e \<Rightarrow> Inl e
                        | Inr db'' \<Rightarrow>
                            process_components d db'' rest
                              parent_mrp_item rid required parent_quantity ltf iss))))"

text \<open>
  The row that \<^verbatim>\<open>create_mrp_run\<close> builds for the finished product of one schedule line
  (\<^verbatim>\<open>product_mrp_item\<close>); \<open>product\<close> is the result of the inventory query, possibly
  \<^verbatim>\<open>None\<close>, and \<open>release\<close> the value that \<^verbatim>\<open>calculate_release_date\<close> returned.
\<close>

definition product_item :: "MPSItem \<Rightarrow> BOM \<Rightarrow> InventoryItem option \<Rightarrow> MRPRun \<Rightarrow> datetime \<Rightarrow> MRPItem" where
  "product_item mps_item bom product db_mrp_run release =
     (let on_hand = (case product of Some p \<Rightarrow> quantity_on_hand p | None \<Rightarrow> 0)
      in \<lparr>mrp_id = 0,
          mrp_run_id = run_pk db_mrp_run,
          mps_item_id = Some (mi_id mps_item),
          item_id = product_id mps_item,
          bom_id = Some (bom_pk bom),
          required_date = planned_date mps_item,
          gross_requirement = mi_quantity mps_item,
          projected_on_hand = on_hand,
          net_requirement = max 0 (mi_quantity mps_item - on_hand),
          planned_order_release = max 0 (mi_quantity mps_item - on_hand),
          planned_order_receipt = max 0 (mi_quantity mps_item - on_hand),
          order_release_date = release,
          is_critical = (mi_quantity mps_item > on_hand),
          parent_id = None\<rparr>)"

text \<open>The \<^verbatim>\<open>for mps_item in mps_items\<close> loop of \<^verbatim>\<open>create_mrp_run\<close>.\<close>

fun process_mps_items ::
      "nat \<Rightarrow> DB \<Rightarrow> MPSItem list \<Rightarrow> MRPRun \<Rightarrow> MRPRunCreate \<Rightarrow> error + DB" where
  "process_mps_items limit db [] db_mrp_run mrp_run = Inr db"
| "process_mps_items limit db (mps_item # rest) db_mrp_run mrp_run =
     (case active_bom db (product_id mps_item) of
        None \<Rightarrow> process_mps_items limit db rest db_mrp_run mrp_run
      | Some bom \<Rightarrow>
          (let product = get_item db (product_id mps_item)
           in case calculate_release_date (planned_date mps_item) product
                     (rc_lead_time_factor mrp_run) of
                Inl e \<Rightarrow> Inl e
              | Inr release \<Rightarrow>
                  (let (product_mrp_item, db') = add_mrp_item db
                         (product_item mps_item bom product db_mrp_run release)
                   in case process_bom_components limit db' bom product_mrp_item
                             (run_pk db_mrp_run) (planned_date mps_item)
                             (planned_order_release product_mrp_item)
                             (rc_lead_time_factor mrp_run) (rc_include_safety_stock mrp_run) of
                        Inl e \<Rightarrow> Inl e
                      | Inr db'' \<Rightarrow> process_mps_items limit db'' rest db_mrp_run mrp_run)))"

text \<open>
  \<^verbatim>\<open>create_mrp_run\<close>. \<open>limit\<close> is the depth of calls left to the explosion and \<open>now\<close> the
  value of \<^verbatim>\<open>datetime.utcnow()\<close>. On success the handler reaches \<^verbatim>\<open>db.commit()\<close> and
  returns the run together with the session's contents; an exception leaves before the
  commit. An exception of \<^verbatim>\<open>calculate_release_date\<close> is raised while the arguments of
  \<^verbatim>\<open>MRPItemModel(...)\<close> are evaluated, before the row exists.
\<close>

definition create_mrp_run ::
      "nat \<Rightarrow> datetime \<Rightarrow> DB \<Rightarrow> MRPRunCreate \<Rightarrow> error + (MRPRun \<times> DB)" where
  "create_mrp_run limit now db mrp_run =
     (case find (\<lambda>m. mps_pk m = rc_mps_id mrp_run) (mps_table db) of
        None \<Rightarrow> Inl HTTP_404_NOT_FOUND
      | Some mps \<Rightarrow>
          (let (db_mrp_run, db1) = add_mrp_run db
                 \<lparr>run_pk = 0,
                  run_name = rc_name mrp_run,
                  run_mps_id = rc_mps_id mrp_run,
                  run_date = now,
                  lead_time_factor = rc_lead_time_factor mrp_run,
                  include_safety_stock = rc_include_safety_stock mrp_run\<rparr>
           in case process_mps_items limit db1 (schedule_items db mps) db_mrp_run mrp_run of
                Inl e \<Rightarrow> Inl e
              | Inr db2 \<Rightarrow> Inr (db_mrp_run, db2)))"


text \<open>The rows of \<^verbatim>\<open>MRPItem\<close> that a request added to the table.\<close>

definition created_items :: "DB \<Rightarrow> DB \<Rightarrow> MRPItem list" where
  "created_items db db' = drop (length (mrp_items db)) (mrp_items db')"

section \<open>Reading the results of a run\<close>

record MRPRunResultItem =
  res_id :: int
  res_item_id :: int
  res_item_code :: string
  res_item_name :: string
  res_required_date :: datetime
  res_gross_requirement :: real
  res_projected_on_hand :: real
  res_net_requirement :: real
  res_planned_order_release :: real
  res_planned_order_receipt :: real
  res_order_release_date :: datetime
  res_is_critical :: bool
  res_parent_id :: "int option"
  level :: int
  has_children :: bool

record MRPRunResult =
  rr_id :: int
  rr_name :: string
  rr_run_date :: datetime
  rr_mps_id :: int
  rr_lead_time_factor :: pyfloat
  rr_include_safety_stock :: bool
  rr_items :: "MRPRunResultItem list"

text \<open>
  The query of \<^verbatim>\<open>read_mrp_results\<close>: the rows of the run joined with their inventory
  item, in table order. A row whose item is gone from the inventory drops out of the join.
\<close>

definition run_rows :: "DB \<Rightarrow> int \<Rightarrow> (MRPItem \<times> string \<times> string) list" where
  "run_rows db rid =
     concat (map (\<lambda>m. map (\<lambda>it. (m, item_code it, inv_name it))
                         (filter (\<lambda>it. item_id m = inv_id it) (inventory db)))
                 (filter (\<lambda>m. mrp_run_id m = rid) (mrp_items db)))"

text \<open>The \<^verbatim>\<open>MRPRunResultItem(...)\<close> call of the loop.\<close>

definition result_item :: "MRPItem \<Rightarrow> string \<Rightarrow> string \<Rightarrow> bool \<Rightarrow> MRPRunResultItem" where
  "result_item mrp_item code nm hc =
     \<lparr>res_id = mrp_id mrp_item,
      res_item_id = item_id mrp_item,
      res_item_code = code,
      res_item_name = nm,
      res_required_date = required_date mrp_item,
      res_gross_requirement = gross_requirement mrp_item,
      res_projected_on_hand = projected_on_hand mrp_item,
      res_net_requirement = net_requirement mrp_item,
      res_planned_order_release = planned_order_release mrp_item,
      res_planned_order_receipt = planned_order_receipt mrp_item,
      res_order_release_date = order_release_date mrp_item,
      res_is_critical = is_critical mrp_item,
      res_parent_id = parent_id mrp_item,
      level = 0,
      has_children = hc\<rparr>"

text \<open>
  The \<^verbatim>\<open>for item_data in mrp_items\<close> loop with its two accumulators, the list
  \<^verbatim>\<open>items_data\<close> and the dictionary \<^verbatim>\<open>items_by_parent\<close> (keyed by \<^verbatim>\<open>parent_id\<close>,
  \<^verbatim>\<open>None\<close> included). The membership test for \<^verbatim>\<open>has_children\<close> is made inside the
  loop, against the dictionary as filled so far.
\<close>

fun build_items ::
      "(MRPItem \<times> string \<times> string) list \<Rightarrow> MRPRunResultItem list \<Rightarrow> (int option \<rightharpoonup> int list)
         \<Rightarrow> MRPRunResultItem list" where
  "build_items [] items_data items_by_parent = items_data"
| "build_items ((mrp_item, code, nm) # rest) items_data items_by_parent =
     (let parent = parent_id mrp_item;
          items_by_parent' =
            items_by_parent(parent \<mapsto>
              (case items_by_parent parent of None \<Rightarrow> [] | Some ids \<Rightarrow> ids) @ [mrp_id mrp_item])
      in build_items rest
           (items_data @
              [result_item mrp_item code nm (items_by_parent' (Some (mrp_id mrp_item)) \<noteq> None)])
           items_by_parent')"

definition read_mrp_results :: "DB \<Rightarrow> int \<Rightarrow> error + MRPRunResult" where
  "read_mrp_results db rid =
     (case find (\<lambda>r. run_pk r = rid) (mrp_runs db) of
        None \<Rightarrow> Inl HTTP_404_NOT_FOUND
      | Some db_run \<Rightarrow>
          Inr \<lparr>rr_id = run_pk db_run,
               rr_name = run_name db_run,
               rr_run_date = run_date db_run,
               rr_mps_id = run_mps_id db_run,
               rr_lead_time_factor = lead_time_factor db_run,
               rr_include_safety_stock = include_safety_stock db_run,
               rr_items = build_items (run_rows db rid) [] Map.empty\<rparr>)"

section \<open>Properties of the rows of a run\<close>

text \<open>
  The predicates in which the results about \<^verbatim>\<open>create_mrp_run\<close> are stated and proved.
  \<open>extends db db'\<close>: the session \<open>db'\<close> has the inventory and the bills of materials of
  \<open>db\<close>, and its \<^verbatim>\<open>MRPItem\<close> table is that of \<open>db\<close> with rows added at the end.
\<close>

definition extends :: "DB \<Rightarrow> DB \<Rightarrow> bool" where
  "extends db db' \<longleftrightarrow>
     inventory db' = inventory db \<and> boms db' = boms db \<and>
     bom_components db' = bom_components db \<and>
     (\<exists>new. mrp_items db' = mrp_items db @ new)"

text \<open>
  \<open>branch_of items r n\<close>: following \<^verbatim>\<open>parent_id\<close> upwards from the row \<open>n\<close> inside
  \<open>items\<close> leads to the top-level row \<open>r\<close>; \<open>r\<close> is the root of the branch of \<open>n\<close>.
\<close>

inductive branch_of :: "MRPItem list \<Rightarrow> MRPItem \<Rightarrow> MRPItem \<Rightarrow> bool" where
  root: "r \<in> set items \<Longrightarrow> parent_id r = None \<Longrightarrow> branch_of items r r"
| step: "branch_of items r p \<Longrightarrow> n \<in> set items \<Longrightarrow> parent_id n = Some (mrp_id p) \<Longrightarrow>
         branch_of items r n"

text \<open>
  \<open>child_ok ltf iss db0 db n\<close>: the row \<open>n\<close> is what \<^verbatim>\<open>process_bom_components\<close> writes
  for a component \<open>c\<close> of the bill of materials of a row \<open>p\<close> that was itself added since
  \<open>db0\<close>; every column is given in terms of \<open>p\<close>, \<open>c\<close> and the inventory item of \<open>c\<close>.
\<close>

definition child_ok :: "pyfloat \<Rightarrow> bool \<Rightarrow> DB \<Rightarrow> DB \<Rightarrow> MRPItem \<Rightarrow> bool" where
  "child_ok ltf iss db0 db n \<longleftrightarrow>
     extends db0 db \<and>
     (\<exists>p \<in> set (created_items db0 db). \<exists>b c it.
        parent_id n = Some (mrp_id p) \<and> bom_id p = Some b \<and>
        (\<exists>r. branch_of (created_items db0 db) r p) \<and>
        c \<in> set (components_of db b) \<and> get_item db (component_id c) = Some it \<and>
        item_id n = component_id c \<and> mps_item_id n = None \<and>
        bom_id n = map_option bom_pk (active_bom db (component_id c)) \<and>
        required_date n = required_date p \<and>
        gross_requirement n = planned_order_release p * bc_quantity c \<and>
        projected_on_hand n = quantity_on_hand it \<and>
        net_requirement n =
          max 0 (gross_requirement n + (if iss then reorder_point it else 0) - quantity_on_hand it) \<and>
        planned_order_release n = net_requirement n \<and>
        planned_order_receipt n = net_requirement n \<and>
        calculate_release_date (required_date n) None ltf = Inr (order_release_date n) \<and>
        is_critical n = (net_requirement n > 0 \<and> projected_on_hand n < gross_requirement n))"

text \<open>
  \<open>top_ok ltf lines db n\<close>: the row \<open>n\<close> is what \<^verbatim>\<open>create_mrp_run\<close> writes for a schedule
  line \<open>l\<close> of \<open>lines\<close> whose product has an active bill of materials.
\<close>

definition top_ok :: "pyfloat \<Rightarrow> MPSItem list \<Rightarrow> DB \<Rightarrow> MRPItem \<Rightarrow> bool" where
  "top_ok ltf lines db n \<longleftrightarrow>
     (\<exists>l \<in> set lines. \<exists>b.
        active_bom db (product_id l) = Some b \<and> parent_id n = None \<and>
        mps_item_id n = Some (mi_id l) \<and> item_id n = product_id l \<and>
        bom_id n = Some (bom_pk b) \<and> required_date n = planned_date l \<and>
        gross_requirement n = mi_quantity l \<and>
        projected_on_hand n =
          (case get_item db (product_id l) of Some p \<Rightarrow> quantity_on_hand p | None \<Rightarrow> 0) \<and>
        net_requirement n = max 0 (gross_requirement n - projected_on_hand n) \<and>
        planned_order_release n = net_requirement n \<and>
        planned_order_receipt n = net_requirement n \<and>
        calculate_release_date (required_date n) None ltf = Inr (order_release_date n) \<and>
        is_critical n = (projected_on_hand n < gross_requirement n))"

definition node_ok :: "pyfloat \<Rightarrow> bool \<Rightarrow> MPSItem list \<Rightarrow> DB \<Rightarrow> DB \<Rightarrow> MRPItem \<Rightarrow> bool" where
  "node_ok ltf iss lines db0 db n \<longleftrightarrow> top_ok ltf lines db n \<or> child_ok ltf iss db0 db n"

text \<open>
  \<open>grows Q db db'\<close>: \<open>db'\<close> extends \<open>db\<close>, every added row satisfies \<open>Q\<close> in \<open>db'\<close>, and
  the primary keys stay distinct if they were.
\<close>

definition grows :: "(DB \<Rightarrow> MRPItem \<Rightarrow> bool) \<Rightarrow> DB \<Rightarrow> DB \<Rightarrow> bool" where
  "grows Q db db' \<longleftrightarrow>
     extends db db' \<and> (\<forall>n \<in> set (created_items db db'). Q db' n) \<and>
     (distinct (map mrp_id (mrp_items db)) \<longrightarrow> distinct (map mrp_id (mrp_items db')))"

section \<open>A schedule with a three-level bill of materials\<close>

text \<open>
  The example on which the results are exercised. Product A is made of two B, one C and
  three of an item 9 that is not in the inventory; B is made of four D; the bill of
  materials of C is inactive. The schedule asks for 50 A on 1 January 2024 (738885 days
  after \<^verbatim>\<open>datetime.min\<close>) and for 7 C twenty days later. The run has lead-time factor 2
  and includes safety stock, so that every order is released on 30 December 2023.
\<close>

definition scn_db :: DB where
  "scn_db =
     \<lparr>inventory =
        [\<lparr>inv_id = 1, item_code = ''A'', inv_name = ''assembly'', quantity_on_hand = 10, reorder_point = 20\<rparr>,
         \<lparr>inv_id = 2, item_code = ''B'', inv_name = ''subassembly'', quantity_on_hand = 5, reorder_point = 3\<rparr>,
         \<lparr>inv_id = 3, item_code = ''C'', inv_name = ''bracket'', quantity_on_hand = 60, reorder_point = 5\<rparr>,
         \<lparr>inv_id = 4, item_code = ''D'', inv_name = ''screw'', quantity_on_hand = 100, reorder_point = 0\<rparr>],
      boms =
        [\<lparr>bom_pk = 1, bom_product_id = 1, is_active = True\<rparr>,
         \<lparr>bom_pk = 2, bom_product_id = 2, is_active = True\<rparr>,
         \<lparr>bom_pk = 3, bom_product_id = 3, is_active = False\<rparr>],
      bom_components =
        [\<lparr>bc_id = 1, bc_bom_id = 1, component_id = 2, bc_quantity = 2\<rparr>,
         \<lparr>bc_id = 2, bc_bom_id = 1, component_id = 3, bc_quantity = 1\<rparr>,
         \<lparr>bc_id = 3, bc_bom_id = 1, component_id = 9, bc_quantity = 3\<rparr>,
         \<lparr>bc_id = 4, bc_bom_id = 2, component_id = 4, bc_quantity = 4\<rparr>],
      mps_table = [\<lparr>mps_pk = 1, mps_name = ''plan''\<rparr>],
      mps_items =
        [\<lparr>mi_id = 1, mi_mps_id = 1, product_id = 1, planned_date = 738885 * us_per_day, mi_quantity = 50\<rparr>,
         \<lparr>mi_id = 2, mi_mps_id = 1, product_id = 3, planned_date = 738905 * us_per_day, mi_quantity = 7\<rparr>],
      mrp_runs = [],
      mrp_items = []\<rparr>"

definition scn_req :: MRPRunCreate where
  "scn_req = \<lparr>rc_name = ''run'', rc_mps_id = 1, rc_lead_time_factor = Finite 2,
              rc_include_safety_stock = True\<rparr>"

definition scn_run :: MRPRun where
  "scn_run = \<lparr>run_pk = 1, run_name = ''run'', run_mps_id = 1, run_date = 0,
              lead_time_factor = Finite 2, include_safety_stock = True\<rparr>"

definition scn_items :: "MRPItem list" where
  "scn_items =
     [\<lparr>mrp_id = 1, mrp_run_id = 1, mps_item_id = Some 1, item_id = 1, bom_id = Some 1,
       required_date = 738885 * us_per_day, gross_requirement = 50, projected_on_hand = 10,
       net_requirement = 40, planned_order_release = 40, planned_order_receipt = 40,
       order_release_date = 738883 * us_per_day, is_critical = True, parent_id = None\<rparr>,
      \<lparr>mrp_id = 2, mrp_run_id = 1, mps_item_id = None, item_id = 2, bom_id = Some 2,
       required_date = 738885 * us_per_day, gross_requirement = 80, projected_on_hand = 5,
       net_requirement = 78, planned_order_release = 78, planned_order_receipt = 78,
       order_release_date = 738883 * us_per_day, is_critical = True, parent_id = Some 1\<rparr>,
      \<lparr>mrp_id = 3, mrp_run_id = 1, mps_item_id = None, item_id = 4, bom_id = None,
       required_date = 738885 * us_per_day, gross_requirement = 312, projected_on_hand = 100,
       net_requirement = 212, planned_order_release = 212, planned_order_receipt = 212,
       order_release_date = 738883 * us_per_day, is_critical = True, parent_id = Some 2\<rparr>,
      \<lparr>mrp_id = 4, mrp_run_id = 1, mps_item_id = None, item_id = 3, bom_id = None,
       required_date = 738885 * us_per_day, gross_requirement = 40, projected_on_hand = 60,
       net_requirement = 0, planned_order_release = 0, planned_order_receipt = 0,
       order_release_date = 738883 * us_per_day, is_critical = False, parent_id = Some 1\<rparr>]"

definition scn_after :: DB where
  "scn_after = scn_db\<lparr>mrp_runs := [scn_run], mrp_items := scn_items\<rparr>"

section \<open>Further examples\<close>

text \<open>
  A component with a negative reorder point, which the inventory schema accepts
  (\<^verbatim>\<open>reorder_point: float = 0.0\<close>, no validator): A is made of one B, five B are on hand
  and the reorder point of B is \<open>-100\<close>. The schedule asks for 10 A.
\<close>

definition neg_db :: DB where
  "neg_db =
     \<lparr>inventory =
        [\<lparr>inv_id = 1, item_code = ''A'', inv_name = ''assembly'', quantity_on_hand = 0, reorder_point = 0\<rparr>,
         \<lparr>inv_id = 2, item_code = ''B'', inv_name = ''subassembly'', quantity_on_hand = 5, reorder_point = -100\<rparr>],
      boms = [\<lparr>bom_pk = 1, bom_product_id = 1, is_active = True\<rparr>],
      bom_components = [\<lparr>bc_id = 1, bc_bom_id = 1, component_id = 2, bc_quantity = 1\<rparr>],
      mps_table = [\<lparr>mps_pk = 1, mps_name = ''plan''\<rparr>],
      mps_items =
        [\<lparr>mi_id = 1, mi_mps_id = 1, product_id = 1, planned_date = 738885 * us_per_day, mi_quantity = 10\<rparr>],
      mrp_runs = [],
      mrp_items = []\<rparr>"

definition neg_items :: "MRPItem list" where
  "neg_items =
     [\<lparr>mrp_id = 1, mrp_run_id = 1, mps_item_id = Some 1, item_id = 1, bom_id = Some 1,
       required_date = 738885 * us_per_day, gross_requirement = 10, projected_on_hand = 0,
       net_requirement = 10, planned_order_release = 10, planned_order_receipt = 10,
       order_release_date = 738883 * us_per_day, is_critical = True, parent_id = None\<rparr>,
      \<lparr>mrp_id = 2, mrp_run_id = 1, mps_item_id = None, item_id = 2, bom_id = None,
       required_date = 738885 * us_per_day, gross_requirement = 10, projected_on_hand = 5,
       net_requirement = 0, planned_order_release = 0, planned_order_receipt = 0,
       order_release_date = 738883 * us_per_day, is_critical = False, parent_id = Some 1\<rparr>]"

definition neg_after :: DB where
  "neg_after = neg_db\<lparr>mrp_runs := [scn_run], mrp_items := neg_items\<rparr>"





text \<open>
  Three schedules in one table. Schedule 1 asks for C (whose bill of materials is
  inactive), for 50 A, for an item 8 that nothing knows and for 20 more A, in this order;
  between them lie a line of schedule 2, for 5 A, and the only line of schedule 3, for C.
  A is made of two B.
\<close>

definition mix_db :: DB where
  "mix_db =
     \<lparr>inventory =
        [\<lparr>inv_id = 1, item_code = ''A'', inv_name = ''assembly'', quantity_on_hand = 10, reorder_point = 20\<rparr>,
         \<lparr>inv_id = 2, item_code = ''B'', inv_name = ''subassembly'', quantity_on_hand = 5, reorder_point = 3\<rparr>,
         \<lparr>inv_id = 3, item_code = ''C'', inv_name = ''bracket'', quantity_on_hand = 60, reorder_point = 5\<rparr>],
      boms =
        [\<lparr>bom_pk = 1, bom_product_id = 1, is_active = True\<rparr>,
         \<lparr>bom_pk = 3, bom_product_id = 3, is_active = False\<rparr>],
      bom_components = [\<lparr>bc_id = 1, bc_bom_id = 1, component_id = 2, bc_quantity = 2\<rparr>],
      mps_table =
        [\<lparr>mps_pk = 1, mps_name = ''plan''\<rparr>, \<lparr>mps_pk = 2, mps_name = ''other''\<rparr>,
         \<lparr>mps_pk = 3, mps_name = ''idle''\<rparr>],
      mps_items =
        [\<lparr>mi_id = 1, mi_mps_id = 1, product_id = 3, planned_date = 738885 * us_per_day, mi_quantity = 7\<rparr>,
         \<lparr>mi_id = 2, mi_mps_id = 2, product_id = 1, planned_date = 738885 * us_per_day, mi_quantity = 5\<rparr>,
         \<lparr>mi_id = 3, mi_mps_id = 1, product_id = 1, planned_date = 738885 * us_per_day, mi_quantity = 50\<rparr>,
         \<lparr>mi_id = 4, mi_mps_id = 3, product_id = 3, planned_date = 738885 * us_per_day, mi_quantity = 4\<rparr>,
         \<lparr>mi_id = 5, mi_mps_id = 1, product_id = 8, planned_date = 738885 * us_per_day, mi_quantity = 1\<rparr>,
         \<lparr>mi_id = 6, mi_mps_id = 1, product_id = 1, planned_date = 738885 * us_per_day, mi_quantity = 20\<rparr>],
      mrp_runs = [],
      mrp_items = []\<rparr>"

definition mix_items :: "MRPItem list" where
  "mix_items =
     [\<lparr>mrp_id = 1, mrp_run_id = 1, mps_item_id = Some 3, item_id = 1, bom_id = Some 1,
       required_date = 738885 * us_per_day, gross_requirement = 50, projected_on_hand = 10,
       net_requirement = 40, planned_order_release = 40, planned_order_receipt = 40,
       order_release_date = 738883 * us_per_day, is_critical = True, parent_id = None\<rparr>,
      \<lparr>mrp_id = 2, mrp_run_id = 1, mps_item_id = None, item_id = 2, bom_id = None,
       required_date = 738885 * us_per_day, gross_requirement = 80, projected_on_hand = 5,
       net_requirement = 78, planned_order_release = 78, planned_order_receipt = 78,
       order_release_date = 738883 * us_per_day, is_critical = True, parent_id = Some 1\<rparr>,
      \<lparr>mrp_id = 3, mrp_run_id = 1, mps_item_id = Some 6, item_id = 1, bom_id = Some 1,
       required_date = 738885 * us_per_day, gross_requirement = 20, projected_on_hand = 10,
       net_requirement = 10, planned_order_release = 10, planned_order_receipt = 10,
       order_release_date = 738883 * us_per_day, is_critical = True, parent_id = None\<rparr>,
      \<lparr>mrp_id = 4, mrp_run_id = 1, mps_item_id = None, item_id = 2, bom_id = None,
       required_date = 738885 * us_per_day, gross_requirement = 20, projected_on_hand = 5,
       net_requirement = 18, planned_order_release = 18, planned_order_receipt = 18,
       order_release_date = 738883 * us_per_day, is_critical = True, parent_id = Some 3\<rparr>]"

definition mix_after :: DB where
  "mix_after = mix_db\<lparr>mrp_runs := [scn_run], mrp_items := mix_items\<rparr>"


section \<open>Outcomes of the explosion\<close>




section \<open>Sessions that only gain rows\<close>

lemma extends_refl: "extends db db"
  by (simp add: extends_def)

lemma extends_trans: "extends a b \<Longrightarrow> extends b c \<Longrightarrow> extends a c"
  by (auto simp: extends_def)

lemma extends_queries:
  assumes "extends db db'"
  shows "get_item db' = get_item db" "active_bom db' = active_bom db"
    "components_of db' = components_of db"
  using assms by (auto simp: extends_def get_item_def active_bom_def components_of_def fun_eq_iff)

lemma extends_set: "extends db db' \<Longrightarrow> n \<in> set (mrp_items db) \<Longrightarrow> n \<in> set (mrp_items db')"
  by (auto simp: extends_def)

lemma created_items_append:
  assumes "extends a b" "extends b c"
  shows "created_items a c = created_items a b @ created_items b c"
proof -
  from assms obtain n1 n2 where "mrp_items b = mrp_items a @ n1" "mrp_items c = mrp_items b @ n2"
    by (auto simp: extends_def)
  then show ?thesis by (simp add: created_items_def)
qed

lemma extends_created: "extends a b \<Longrightarrow> mrp_items b = mrp_items a @ created_items a b"
  by (auto simp: extends_def created_items_def)

lemma extends_created_subset:
  assumes "extends db0 a" "extends a b"
  shows "set (created_items db0 a) \<subseteq> set (created_items db0 b)"
  by (simp add: created_items_append[OF assms])

lemma branch_of_mono:
  assumes "branch_of items r n" "set items \<subseteq> set items'"
  shows "branch_of items' r n"
  using assms by (induction rule: branch_of.induct) (auto intro: branch_of.intros)


lemma child_ok_mono:
  assumes ab: "extends a b" and ok: "child_ok ltf iss db0 a n"
  shows "child_ok ltf iss db0 b n"
proof -
  from ok have e0: "extends db0 a" by (simp add: child_ok_def)
  note sub = extends_created_subset[OF e0 ab]
  have e0b: "extends db0 b" by (rule extends_trans[OF e0 ab])
  from ok sub branch_of_mono[OF _ sub] e0b show ?thesis
    unfolding child_ok_def extends_queries[OF ab] by blast
qed

lemma grows_refl: "grows Q db db"
  by (simp add: grows_def extends_refl created_items_def)

lemma grows_trans:
  assumes mono: "\<And>a b n. extends a b \<Longrightarrow> Q a n \<Longrightarrow> Q b n"
    and ab: "grows Q a b" and bc: "grows Q b c"
  shows "grows Q a c"
proof -
  from ab bc have e: "extends a b" "extends b c" by (simp_all add: grows_def)
  have "Q c n" if "n \<in> set (created_items a c)" for n
  proof -
    from that have "n \<in> set (created_items a b) \<or> n \<in> set (created_items b c)"
      by (simp add: created_items_append[OF e])
    then show ?thesis
    proof
      assume "n \<in> set (created_items a b)"
      with ab have "Q b n" by (simp add: grows_def)
      with e(2) show ?thesis by (rule mono)
    next
      assume "n \<in> set (created_items b c)"
      with bc show ?thesis by (simp add: grows_def)
    qed
  qed
  with ab bc extends_trans[OF e] show ?thesis by (simp add: grows_def)
qed

lemma foldr_max_ge: "x \<in> set ids \<Longrightarrow> x \<le> foldr max ids (0::int)"
  by (induction ids) auto

lemma fresh_id_notin: "fresh_id ids \<notin> set ids"
proof
  assume "fresh_id ids \<in> set ids"
  then have "fresh_id ids \<le> foldr max ids 0" by (rule foldr_max_ge)
  then show False by (simp add: fresh_id_def)
qed

lemma add_mrp_item_eq:
  assumes "add_mrp_item db m = (node, db')"
  shows "node = m\<lparr>mrp_id := fresh_id (map mrp_id (mrp_items db))\<rparr>"
    and "db' = db\<lparr>mrp_items := mrp_items db @ [node]\<rparr>"
  using assms by (auto simp: add_mrp_item_def Let_def)

lemma add_mrp_item_grows:
  assumes add: "add_mrp_item db m = (node, db')"
    and ok: "Q db' node"
  shows "grows Q db db'" "node \<in> set (mrp_items db')"
proof -
  note eq = add_mrp_item_eq[OF add]
  have items: "mrp_items db' = mrp_items db @ [node]" by (subst eq(2)) simp
  have ext: "extends db db'" unfolding extends_def using items by (subst (1 2 3) eq(2)) simp
  have cr: "created_items db db' = [node]" by (simp add: created_items_def items)
  have "mrp_id node \<notin> set (map mrp_id (mrp_items db))"
    using fresh_id_notin[of "map mrp_id (mrp_items db)"] by (simp add: eq(1))
  then have "distinct (map mrp_id (mrp_items db)) \<longrightarrow> distinct (map mrp_id (mrp_items db'))"
    by (simp add: items)
  with ext cr ok show "grows Q db db'" by (simp add: grows_def)
  show "node \<in> set (mrp_items db')" by (simp add: items)
qed

lemma calculate_release_date_item:
  "calculate_release_date required item ltf = calculate_release_date required None ltf"
  by (simp add: calculate_release_date_def lead_time_attr_def)

lemma component_item_ok:
  assumes e0: "extends db0 db"
    and par: "parent \<in> set (created_items db0 db)" "bom_id parent = Some b"
      "branch_of (created_items db0 db) r parent"
    and c: "c \<in> set (components_of db b)" "get_item db (component_id c) = Some item"
    and rel: "calculate_release_date (required_date parent) (Some item) ltf = Inr release"
    and add: "add_mrp_item db (component_item db c item parent rid (required_date parent)
                 (planned_order_release parent) release iss) = (node, db')"
  shows "child_ok ltf iss db0 db' node"
proof -
  note eq = add_mrp_item_eq[OF add]
  from rel have rel': "calculate_release_date (required_date parent) None ltf = Inr release"
    by (subst (asm) calculate_release_date_item)
  have items: "mrp_items db' = mrp_items db @ [node]" by (subst eq(2)) simp
  have ext: "extends db db'" unfolding extends_def using items by (subst (1 2 3) eq(2)) simp
  note q = extends_queries[OF ext]
  note sub = extends_created_subset[OF e0 ext]
  from par(1) sub have p': "parent \<in> set (created_items db0 db')" by auto
  have br: "\<exists>r. branch_of (created_items db0 db') r parent"
    using branch_of_mono[OF par(3) sub] by blast
  have e0': "extends db0 db'" by (rule extends_trans[OF e0 ext])
  show ?thesis
    unfolding child_ok_def q
    apply (rule conjI[OF e0'])
    apply (rule bexI[OF _ p'])
    apply (rule exI[of _ b], rule exI[of _ c], rule exI[of _ item])
    apply (simp add: eq(1) par(2) br c component_item_def Let_def rel')
    done
qed

section \<open>The explosion writes well-formed component rows\<close>

lemma grows_child_trans:
  assumes "grows (child_ok ltf iss db0) a b" "grows (child_ok ltf iss db0) b c"
  shows "grows (child_ok ltf iss db0) a c"
proof (rule grows_trans[where Q = "child_ok ltf iss db0", OF _ assms])
  fix x y n
  assume "extends x y" "child_ok ltf iss db0 x n"
  then show "child_ok ltf iss db0 y n" by (rule child_ok_mono)
qed

lemma grows_extends: "grows Q a b \<Longrightarrow> extends a b"
  by (simp add: grows_def)

lemma add_mrp_item_extends:
  assumes "add_mrp_item db m = (node, db')"
  shows "extends db db'" "created_items db db' = [node]"
proof -
  note eq = add_mrp_item_eq[OF assms]
  have items: "mrp_items db' = mrp_items db @ [node]" by (subst eq(2)) simp
  show "extends db db'" unfolding extends_def using items by (subst (1 2 3) eq(2)) simp
  show "created_items db db' = [node]" by (simp add: created_items_def items)
qed

lemma add_mrp_item_created:
  assumes add: "add_mrp_item db m = (node, db')" and e0: "extends db0 db"
  shows "node \<in> set (created_items db0 db')"
  using add_mrp_item_extends[OF add] by (simp add: created_items_append[OF e0])

lemma child_ok_branch:
  assumes "child_ok ltf iss db0 db n" "n \<in> set (created_items db0 db)"
  shows "\<exists>r. branch_of (created_items db0 db) r n"
proof -
  from assms(1) obtain p r where pr: "parent_id n = Some (mrp_id p)"
    and br: "branch_of (created_items db0 db) r p"
    unfolding child_ok_def by blast
  have "branch_of (created_items db0 db) r n"
    by (rule branch_of.step[OF br assms(2) pr])
  then show ?thesis ..
qed

lemma process_components_grows:
  assumes deeper: "\<And>db cb node db'.
      process_bom_components d db cb node rid (required_date node)
        (planned_order_release node) ltf iss = Inr db' \<Longrightarrow>
      extends db0 db \<Longrightarrow> node \<in> set (created_items db0 db) \<Longrightarrow>
      bom_id node = Some (bom_pk cb) \<Longrightarrow> \<exists>r. branch_of (created_items db0 db) r node \<Longrightarrow>
      grows (child_ok ltf iss db0) db db'"
  shows "process_components d db cs parent rid (required_date parent)
           (planned_order_release parent) ltf iss = Inr db' \<Longrightarrow>
         extends db0 db \<Longrightarrow> parent \<in> set (created_items db0 db) \<Longrightarrow>
         bom_id parent = Some b \<Longrightarrow> \<exists>r. branch_of (created_items db0 db) r parent \<Longrightarrow>
         set cs \<subseteq> set (components_of db b) \<Longrightarrow>
         grows (child_ok ltf iss db0) db db'"
proof (induction cs arbitrary: db)
  case Nil
  then show ?case by (simp add: grows_refl)
next
  case (Cons c cs)
  note e0 = Cons.prems(2) and par = Cons.prems(3) and pb = Cons.prems(4)
  from Cons.prems(5) obtain r where br: "branch_of (created_items db0 db) r parent" ..
  show ?case
  proof (cases "get_item db (component_id c)")
    case None
    with Cons.prems(1) have "process_components d db cs parent rid (required_date parent)
           (planned_order_release parent) ltf iss = Inr db'" by simp
    then show ?thesis
    proof (rule Cons.IH)
      show "extends db0 db" by (rule e0)
      show "parent \<in> set (created_items db0 db)" by (rule par)
      show "bom_id parent = Some b" by (rule pb)
      show "\<exists>r. branch_of (created_items db0 db) r parent" by (rule Cons.prems(5))
      show "set cs \<subseteq> set (components_of db b)" using Cons.prems(6) by simp
    qed
  next
    case (Some item)
    from Cons.prems(1) Some obtain release where
      rel: "calculate_release_date (required_date parent) (Some item) ltf = Inr release"
      by (cases "calculate_release_date (required_date parent) (Some item) ltf") simp_all
    obtain node db1 where add: "add_mrp_item db (component_item db c item parent rid
        (required_date parent) (planned_order_release parent) release iss) = (node, db1)"
      by (cases "add_mrp_item db (component_item db c item parent rid
        (required_date parent) (planned_order_release parent) release iss)")
    from Cons.prems(6) have cin: "c \<in> set (components_of db b)" by simp
    have ok: "child_ok ltf iss db0 db1 node"
      by (rule component_item_ok[OF e0 par pb br cin Some rel add])
    have g1: "grows (child_ok ltf iss db0) db db1"
      using add_mrp_item_grows(1)[OF add, of "child_ok ltf iss db0", OF ok] .
    note e1 = grows_extends[OF g1]
    have e01: "extends db0 db1" by (rule extends_trans[OF e0 e1])
    note sub1 = extends_created_subset[OF e0 e1]
    have par1: "parent \<in> set (created_items db0 db1)" using par sub1 by auto
    have br1: "\<exists>r. branch_of (created_items db0 db1) r parent"
      using branch_of_mono[OF br sub1] by blast
    have cs1: "set cs \<subseteq> set (components_of db1 b)"
      using Cons.prems(6) by (simp add: extends_queries[OF e1])
    have nin: "node \<in> set (created_items db0 db1)" by (rule add_mrp_item_created[OF add e0])
    have nbr: "\<exists>r. branch_of (created_items db0 db1) r node" by (rule child_ok_branch[OF ok nin])
    have nf: "required_date node = required_date parent"
      "bom_id node = map_option bom_pk (active_bom db (component_id c))"
      using add_mrp_item_eq(1)[OF add] by (simp_all add: component_item_def Let_def)
    show ?thesis
    proof (cases "active_bom db (component_id c)")
      case None
      with Cons.prems(1) Some rel add
      have "process_components d db1 cs parent rid (required_date parent)
           (planned_order_release parent) ltf iss = Inr db'" by simp
      then have "grows (child_ok ltf iss db0) db1 db'"
        using e01 par1 pb br1 cs1 by (rule Cons.IH)
      with g1 show ?thesis by (rule grows_child_trans)
    next
      case cb: (Some cb)
      show ?thesis
      proof (cases "process_bom_components d db1 cb node rid (required_date parent)
                          (planned_order_release node) ltf iss")
        case (Inl e)
        with Cons.prems(1) Some rel add cb show ?thesis by simp
      next
        case (Inr db2)
        with Cons.prems(1) Some rel add cb
        have rest: "process_components d db2 cs parent rid (required_date parent)
           (planned_order_release parent) ltf iss = Inr db'" by simp
        have nb: "bom_id node = Some (bom_pk cb)" using nf(2) cb by simp
        have call: "process_bom_components d db1 cb node rid (required_date node)
                          (planned_order_release node) ltf iss = Inr db2"
          using Inr nf(1) by simp
        have g2: "grows (child_ok ltf iss db0) db1 db2"
          by (rule deeper[OF call e01 nin nb nbr])
        note e2 = grows_extends[OF g2]
        note sub2 = extends_created_subset[OF e01 e2]
        from br1 obtain r1 where "branch_of (created_items db0 db1) r1 parent" ..
        then have br2: "\<exists>r. branch_of (created_items db0 db2) r parent"
          using branch_of_mono[OF _ sub2] by blast
        have par2: "parent \<in> set (created_items db0 db2)" using par1 sub2 by blast
        have cs2: "set cs \<subseteq> set (components_of db2 b)"
          using cs1 by (simp add: extends_queries[OF e2])
        have "grows (child_ok ltf iss db0) db2 db'"
          by (rule Cons.IH[OF rest extends_trans[OF e01 e2] par2 pb br2 cs2])
        with g2 have "grows (child_ok ltf iss db0) db1 db'" by (rule grows_child_trans)
        with g1 show ?thesis by (rule grows_child_trans)
      qed
    qed
  qed
qed

lemma process_bom_components_grows:
  "process_bom_components d db bom parent rid (required_date parent)
     (planned_order_release parent) ltf iss = Inr db' \<Longrightarrow>
   extends db0 db \<Longrightarrow> parent \<in> set (created_items db0 db) \<Longrightarrow>
   bom_id parent = Some (bom_pk bom) \<Longrightarrow> \<exists>r. branch_of (created_items db0 db) r parent \<Longrightarrow>
   grows (child_ok ltf iss db0) db db'"
proof (induction d arbitrary: db bom parent db')
  case 0
  then show ?case by simp
next
  case (Suc d)
  from Suc.prems(1) have pc: "process_components d db (components_of db (bom_pk bom)) parent rid
      (required_date parent) (planned_order_release parent) ltf iss = Inr db'" by simp
  show ?case
  proof (rule process_components_grows[where d = d and cs = "components_of db (bom_pk bom)"])
    fix dba cb node dba'
    assume "process_bom_components d dba cb node rid (required_date node)
        (planned_order_release node) ltf iss = Inr dba'"
      "extends db0 dba" "node \<in> set (created_items db0 dba)" "bom_id node = Some (bom_pk cb)"
      "\<exists>r. branch_of (created_items db0 dba) r node"
    then show "grows (child_ok ltf iss db0) dba dba'" by (rule Suc.IH)
  next
    show "process_components d db (components_of db (bom_pk bom)) parent rid
      (required_date parent) (planned_order_release parent) ltf iss = Inr db'" by (rule pc)
    show "extends db0 db" by fact
    show "parent \<in> set (created_items db0 db)" by fact
    show "bom_id parent = Some (bom_pk bom)" by fact
    show "\<exists>r. branch_of (created_items db0 db) r parent" by fact
    show "set (components_of db (bom_pk bom)) \<subseteq> set (components_of db (bom_pk bom))" by simp
  qed
qed

section \<open>The schedule loop and the whole run\<close>

lemma top_ok_mono:
  assumes "extends a b" "top_ok ltf lines a n"
  shows "top_ok ltf lines b n"
  using assms(2) unfolding top_ok_def extends_queries[OF assms(1)] .

lemma node_ok_mono:
  assumes "extends a b" "node_ok ltf iss lines db0 a n"
  shows "node_ok ltf iss lines db0 b n"
  using assms(2) top_ok_mono[OF assms(1)] child_ok_mono[OF assms(1)]
  unfolding node_ok_def by blast

lemma grows_node_trans:
  assumes "grows (node_ok ltf iss lines db0) a b" "grows (node_ok ltf iss lines db0) b c"
  shows "grows (node_ok ltf iss lines db0) a c"
proof (rule grows_trans[where Q = "node_ok ltf iss lines db0", OF _ assms])
  fix x y n
  assume "extends x y" "node_ok ltf iss lines db0 x n"
  then show "node_ok ltf iss lines db0 y n" by (rule node_ok_mono)
qed

lemma grows_child_node:
  assumes "grows (child_ok ltf iss db0) a b"
  shows "grows (node_ok ltf iss lines db0) a b"
  using assms by (simp add: grows_def node_ok_def)

lemma grows_child_no_top:
  assumes "grows (child_ok ltf iss db0) a b"
  shows "filter (\<lambda>n. parent_id n = None) (created_items a b) = []"
proof -
  have "parent_id n \<noteq> None" if "n \<in> set (created_items a b)" for n
  proof -
    from assms that have "child_ok ltf iss db0 b n" by (simp add: grows_def)
    then show ?thesis unfolding child_ok_def by auto
  qed
  then show ?thesis by (simp add: filter_empty_conv)
qed

lemma product_item_ok:
  assumes l: "l \<in> set lines" and b: "active_bom db (product_id l) = Some bom"
    and rel: "calculate_release_date (planned_date l) (get_item db (product_id l))
                (rc_lead_time_factor req) = Inr release"
    and add: "add_mrp_item db (product_item l bom (get_item db (product_id l)) run release)
                = (node, db')"
  shows "top_ok (rc_lead_time_factor req) lines db' node"
proof -
  note eq = add_mrp_item_eq[OF add]
  from rel have rel': "calculate_release_date (planned_date l) None (rc_lead_time_factor req)
      = Inr release"
    by (subst (asm) calculate_release_date_item)
  note q = extends_queries[OF add_mrp_item_extends(1)[OF add]]
  show ?thesis
    unfolding top_ok_def q
    apply (rule bexI[OF _ l])
    apply (rule exI[of _ bom])
    apply (simp add: eq(1) b product_item_def Let_def rel')
    done
qed

lemma process_mps_items_grows:
  "process_mps_items limit db ls run req = Inr db' \<Longrightarrow> extends db0 db \<Longrightarrow>
   set ls \<subseteq> set lines \<Longrightarrow>
   grows (node_ok (rc_lead_time_factor req) (rc_include_safety_stock req) lines db0) db db' \<and>
   length (filter (\<lambda>n. parent_id n = None) (created_items db db')) =
     length (filter (\<lambda>l. active_bom db (product_id l) \<noteq> None) ls)"
proof (induction ls arbitrary: db)
  case Nil
  then show ?case by (simp add: grows_refl created_items_def)
next
  case (Cons l ls)
  let ?ltf = "rc_lead_time_factor req" and ?iss = "rc_include_safety_stock req"
  let ?Q = "node_ok ?ltf ?iss lines db0"
  let ?top = "\<lambda>n. parent_id n = None"
  note e0 = Cons.prems(2)
  from Cons.prems(3) have lin: "l \<in> set lines" and sub: "set ls \<subseteq> set lines" by simp_all
  show ?case
  proof (cases "active_bom db (product_id l)")
    case None
    with Cons.prems(1) have "process_mps_items limit db ls run req = Inr db'" by simp
    from Cons.IH[OF this e0 sub] None show ?thesis by simp
  next
    case (Some bom)
    from Cons.prems(1) Some obtain release where
      rel: "calculate_release_date (planned_date l) (get_item db (product_id l)) ?ltf
              = Inr release"
      by (cases "calculate_release_date (planned_date l) (get_item db (product_id l)) ?ltf")
         simp_all
    obtain node db1 where add:
      "add_mrp_item db (product_item l bom (get_item db (product_id l)) run release) = (node, db1)"
      by (cases "add_mrp_item db (product_item l bom (get_item db (product_id l)) run release)")
    have top: "top_ok ?ltf lines db1 node" by (rule product_item_ok[OF lin Some rel add])
    then have ok: "?Q db1 node" by (simp add: node_ok_def)
    have g1: "grows ?Q db db1" by (rule add_mrp_item_grows(1)[OF add, of ?Q, OF ok])
    note e1 = add_mrp_item_extends(1)[OF add] and c1 = add_mrp_item_extends(2)[OF add]
    have e01: "extends db0 db1" by (rule extends_trans[OF e0 e1])
    have nin: "node \<in> set (created_items db0 db1)" by (rule add_mrp_item_created[OF add e0])
    have nf: "parent_id node = None" "bom_id node = Some (bom_pk bom)"
      "required_date node = planned_date l"
      using add_mrp_item_eq(1)[OF add] by (simp_all add: product_item_def Let_def)
    have nbr: "\<exists>r. branch_of (created_items db0 db1) r node"
      using branch_of.root[OF nin nf(1)] by blast
    show ?thesis
    proof (cases "process_bom_components limit db1 bom node (run_pk run) (planned_date l)
                    (planned_order_release node) ?ltf ?iss")
      case (Inl e)
      with Cons.prems(1) Some rel add show ?thesis by simp
    next
      case (Inr db2)
      with Cons.prems(1) Some rel add
      have rest: "process_mps_items limit db2 ls run req = Inr db'" by simp
      have call: "process_bom_components limit db1 bom node (run_pk run) (required_date node)
                    (planned_order_release node) ?ltf ?iss = Inr db2"
        using Inr nf(3) by simp
      have gc: "grows (child_ok ?ltf ?iss db0) db1 db2"
        by (rule process_bom_components_grows[OF call e01 nin nf(2) nbr])
      note e2 = grows_extends[OF gc]
      have e02: "extends db0 db2" by (rule extends_trans[OF e01 e2])
      note ih = Cons.IH[OF rest e02 sub]
      note e3 = grows_extends[OF conjunct1[OF ih]]
      have g: "grows ?Q db db'"
        by (rule grows_node_trans[OF g1 grows_node_trans[OF grows_child_node[OF gc] conjunct1[OF ih]]])
      have e12: "extends db db2" by (rule extends_trans[OF e1 e2])
      have cr: "created_items db db' = node # created_items db1 db2 @ created_items db2 db'"
        by (simp add: created_items_append[OF e12 e3] created_items_append[OF e1 e2] c1)
      have q2: "active_bom db2 = active_bom db" by (rule extends_queries(2)[OF e12])
      have "length (filter ?top (created_items db db')) =
              Suc (length (filter ?top (created_items db2 db')))"
        by (simp add: cr nf(1) grows_child_no_top[OF gc])
      also have "\<dots> = Suc (length (filter (\<lambda>l. active_bom db (product_id l) \<noteq> None) ls))"
        using conjunct2[OF ih] by (simp add: q2)
      finally show ?thesis using g Some by simp
    qed
  qed
qed

lemma child_ok_base:
  assumes "inventory a = inventory b" "boms a = boms b" "bom_components a = bom_components b"
    "mrp_items a = mrp_items b"
  shows "child_ok ltf iss a db n = child_ok ltf iss b db n"
  by (simp add: child_ok_def extends_def created_items_def assms)

lemma create_mrp_run_Inr:
  assumes ok: "create_mrp_run limit now db req = Inr (run, db')"
  obtains mps where "find (\<lambda>m. mps_pk m = rc_mps_id req) (mps_table db) = Some mps"
    and "extends db db'"
    and "\<And>n. n \<in> set (created_items db db') \<Longrightarrow>
           node_ok (rc_lead_time_factor req) (rc_include_safety_stock req)
             (schedule_items db mps) db db' n"
    and "distinct (map mrp_id (mrp_items db)) \<Longrightarrow> distinct (map mrp_id (mrp_items db'))"
    and "length (filter (\<lambda>n. parent_id n = None) (created_items db db')) =
         length (filter (\<lambda>l. active_bom db (product_id l) \<noteq> None) (schedule_items db mps))"
proof -
  let ?ltf = "rc_lead_time_factor req" and ?iss = "rc_include_safety_stock req"
  from ok obtain mps where mps: "find (\<lambda>m. mps_pk m = rc_mps_id req) (mps_table db) = Some mps"
    by (cases "find (\<lambda>m. mps_pk m = rc_mps_id req) (mps_table db)")
       (simp_all add: create_mrp_run_def)
  let ?lines = "schedule_items db mps"
  obtain r db1 where add: "add_mrp_run db
                 \<lparr>run_pk = 0,
                  run_name = rc_name req,
                  run_mps_id = rc_mps_id req,
                  run_date = now,
                  lead_time_factor = rc_lead_time_factor req,
                  include_safety_stock = rc_include_safety_stock req\<rparr> = (r, db1)"
    by (cases "add_mrp_run db
                 \<lparr>run_pk = 0,
                  run_name = rc_name req,
                  run_mps_id = rc_mps_id req,
                  run_date = now,
                  lead_time_factor = rc_lead_time_factor req,
                  include_safety_stock = rc_include_safety_stock req\<rparr>")
  then have db1: "inventory db1 = inventory db" "boms db1 = boms db"
    "bom_components db1 = bom_components db" "mrp_items db1 = mrp_items db"
    by (auto simp: add_mrp_run_def Let_def)
  from ok mps add have pm: "process_mps_items limit db1 ?lines r req = Inr db'"
    by (simp add: create_mrp_run_def split: sum.splits)
  have e1: "extends db db1" by (simp add: extends_def db1)
  note res = process_mps_items_grows[OF pm extends_refl subset_refl]
  note g = conjunct1[OF res]
  have cr: "created_items db1 db' = created_items db db'" by (simp add: created_items_def db1)
  have ab: "active_bom db1 = active_bom db" by (rule extends_queries(2)[OF e1])
  show ?thesis
  proof (rule that[OF mps])
    show "extends db db'" by (rule extends_trans[OF e1 grows_extends[OF g]])
    show "node_ok ?ltf ?iss ?lines db db' n" if "n \<in> set (created_items db db')" for n
    proof -
      from that g have "node_ok ?ltf ?iss ?lines db1 db' n" by (simp add: grows_def cr)
      then show ?thesis by (simp add: node_ok_def child_ok_base[OF db1])
    qed
    show "distinct (map mrp_id (mrp_items db'))" if "distinct (map mrp_id (mrp_items db))"
      using that g by (simp add: grows_def db1)
    show "length (filter (\<lambda>n. parent_id n = None) (created_items db db')) =
         length (filter (\<lambda>l. active_bom db (product_id l) \<noteq> None) ?lines)"
      using conjunct2[OF res] by (simp add: cr ab)
  qed
qed

lemma create_mrp_run_rows:
  assumes "create_mrp_run limit now db req = Inr (run, db')"
  shows "\<exists>mps. find (\<lambda>m. mps_pk m = rc_mps_id req) (mps_table db) = Some mps \<and>
     extends db db' \<and>
     (\<forall>n \<in> set (created_items db db').
        node_ok (rc_lead_time_factor req) (rc_include_safety_stock req)
          (schedule_items db mps) db db' n) \<and>
     (distinct (map mrp_id (mrp_items db)) \<longrightarrow> distinct (map mrp_id (mrp_items db'))) \<and>
     length (filter (\<lambda>n. parent_id n = None) (created_items db db')) =
       length (filter (\<lambda>l. active_bom db (product_id l) \<noteq> None) (schedule_items db mps))"
proof (rule create_mrp_run_Inr[OF assms])
  fix mps
  assume "find (\<lambda>m. mps_pk m = rc_mps_id req) (mps_table db) = Some mps"
    "extends db db'"
    "\<And>n. n \<in> set (created_items db db') \<Longrightarrow>
       node_ok (rc_lead_time_factor req) (rc_include_safety_stock req)
         (schedule_items db mps) db db' n"
    "distinct (map mrp_id (mrp_items db)) \<Longrightarrow> distinct (map mrp_id (mrp_items db'))"
    "length (filter (\<lambda>n. parent_id n = None) (created_items db db')) =
       length (filter (\<lambda>l. active_bom db (product_id l) \<noteq> None) (schedule_items db mps))"
  then show ?thesis by blast
qed

lemma round_half_even_of_int: "round_half_even (of_int k) = k"
  by (simp add: round_half_even_def)

lemma timedelta_whole_days:
  assumes "- 999999999 \<le> k" "k \<le> 999999999"
  shows "timedelta (Finite (of_int k)) = Inr (k * us_per_day)"
proof -
  have "of_int k * real_of_int us_per_day = of_int (k * us_per_day)" by simp
  then have "round_half_even (of_int k * real_of_int us_per_day) = k * us_per_day"
    by (simp only: round_half_even_of_int)
  moreover have "k * us_per_day div us_per_day = k" by (simp add: us_per_day_def)
  ultimately show ?thesis using assms by (simp add: timedelta_def Let_def)
qed

lemma scn_release:
  "calculate_release_date (738885 * us_per_day) item (Finite 2) = Inr (738883 * us_per_day)"
proof -
  have "timedelta (Finite (of_int 2)) = Inr (2 * us_per_day)"
    by (rule timedelta_whole_days) simp_all
  then have "timedelta (Finite 2) = Inr (2 * us_per_day)" by simp
  moreover have "datetime_minus (738885 * us_per_day) (2 * us_per_day) = Inr (738883 * us_per_day)"
    by (simp add: datetime_minus_def valid_datetime_def us_per_day_def)
  ultimately show ?thesis
    by (simp add: calculate_release_date_def lead_time_attr_def)
qed

lemma scn_create: "create_mrp_run 10 0 scn_db scn_req = Inr (scn_run, scn_after)"
  by (simp add: create_mrp_run_def scn_db_def scn_req_def scn_run_def scn_items_def scn_after_def
      add_mrp_run_def add_mrp_item_def fresh_id_def schedule_items_def active_bom_def get_item_def
      components_of_def product_item_def component_item_def scn_release
      eval_nat_numeral Let_def)

lemma scn_created: "created_items scn_db scn_after = scn_items"
  by (simp add: created_items_def scn_db_def scn_after_def)


lemma scn_distinct: "distinct (map mrp_id (mrp_items scn_db))"
  by (simp add: scn_db_def)

lemma distinct_ids_eq:
  assumes "distinct (map mrp_id items)" "p \<in> set items" "q \<in> set items" "mrp_id p = mrp_id q"
  shows "p = q"
  using assms by (meson distinct_map inj_onD)

lemma created_subset: "extends db db' \<Longrightarrow> set (created_items db db') \<subseteq> set (mrp_items db')"
  by (auto simp: extends_def created_items_def)


lemma top_ok_root:
  assumes "top_ok ltf lines db n"
  shows "parent_id n = None"
  using assms unfolding top_ok_def by metis


lemma node_ok_child:
  assumes "node_ok ltf iss lines db0 db n" "parent_id n \<noteq> None"
  shows "child_ok ltf iss db0 db n"
proof -
  from assms(2) top_ok_root[of ltf lines db n] have "\<not> top_ok ltf lines db n" by auto
  with assms(1) show ?thesis unfolding node_ok_def by blast
qed


lemma child_ok_item:
  assumes "child_ok ltf iss db0 db n"
  shows "\<exists>it. get_item db (item_id n) = Some it \<and>
     projected_on_hand n = quantity_on_hand it \<and>
     net_requirement n =
          max 0 (gross_requirement n + (if iss then reorder_point it else 0) - quantity_on_hand it) \<and>
     is_critical n = (net_requirement n > 0 \<and> projected_on_hand n < gross_requirement n)"
  using assms unfolding child_ok_def by metis

section \<open>The further examples, evaluated\<close>

lemma neg_create: "create_mrp_run 10 0 neg_db scn_req = Inr (scn_run, neg_after)"
  by (simp add: create_mrp_run_def neg_db_def scn_req_def scn_run_def neg_items_def neg_after_def
      add_mrp_run_def add_mrp_item_def fresh_id_def schedule_items_def active_bom_def get_item_def
      components_of_def product_item_def component_item_def scn_release
      eval_nat_numeral Let_def)

lemma neg_created: "created_items neg_db neg_after = neg_items"
  by (simp add: created_items_def neg_db_def neg_after_def)



lemma mix_create: "create_mrp_run 10 0 mix_db scn_req = Inr (scn_run, mix_after)"
  by (simp add: create_mrp_run_def mix_db_def scn_req_def scn_run_def mix_items_def mix_after_def
      add_mrp_run_def add_mrp_item_def fresh_id_def schedule_items_def active_bom_def get_item_def
      components_of_def product_item_def component_item_def scn_release
      eval_nat_numeral Let_def)

lemma mix_created: "created_items mix_db mix_after = mix_items"
  by (simp add: created_items_def mix_db_def mix_after_def)

section \<open>A run ends with a larger session or with an exception\<close>







lemma add_mrp_run_extends: "add_mrp_run db r = (r', db1) \<Longrightarrow> extends db db1"
  by (auto simp: add_mrp_run_def extends_def Let_def)

section \<open>An explosion without end never completes\<close>














section \<open>What the release date is\<close>

lemma float_times_one: "float_times 1 x = x"
  by (cases x) simp_all

lemma calculate_release_date_timedelta:
  "calculate_release_date required item ltf =
     (case timedelta ltf of Inl e \<Rightarrow> Inl e | Inr delta \<Rightarrow> datetime_minus required delta)"
  by (simp add: calculate_release_date_def lead_time_attr_def float_times_one)

lemma round_half_even_bound: "\<bar>of_int (round_half_even y) - y\<bar> \<le> 1 / 2"
proof -
  have "of_int \<lfloor>y\<rfloor> \<le> y" "y < of_int \<lfloor>y\<rfloor> + 1" by linarith+
  then show ?thesis by (auto simp: round_half_even_def Let_def)
qed

lemma calculate_release_date_Finite:
  assumes "calculate_release_date required item (Finite x) = Inr d"
  shows "d = required - round_half_even (x * of_int us_per_day)"
    and "valid_datetime d"
    and "\<bar>of_int (required - d) - x * of_int us_per_day\<bar> \<le> 1 / 2"
proof -
  from assms show d: "d = required - round_half_even (x * of_int us_per_day)"
    by (auto simp: calculate_release_date_timedelta timedelta_def datetime_minus_def Let_def
        split: if_splits)
  from assms show "valid_datetime d"
    by (auto simp: calculate_release_date_timedelta timedelta_def datetime_minus_def Let_def
        split: if_splits)
  from d have "required - d = round_half_even (x * of_int us_per_day)" by simp
  then show "\<bar>of_int (required - d) - x * of_int us_per_day\<bar> \<le> 1 / 2"
    by (simp only: round_half_even_bound)
qed

lemma calculate_release_date_exact:
  assumes "x * of_int us_per_day = of_int k"
    and "- 999999999 \<le> k div us_per_day" "k div us_per_day \<le> 999999999"
    and "valid_datetime (required - k)"
  shows "calculate_release_date required item (Finite x) = Inr (required - k)"
  using assms
  by (simp add: calculate_release_date_timedelta timedelta_def datetime_minus_def Let_def
      round_half_even_of_int)

section \<open>Schedule lines without a bill of materials\<close>

lemma process_mps_items_no_bom:
  "\<forall>l \<in> set ls. active_bom db (product_id l) = None \<Longrightarrow>
   process_mps_items limit db ls run req = Inr db"
  by (induction ls) simp_all

lemma create_mrp_run_no_bom:
  assumes mps: "find (\<lambda>m. mps_pk m = rc_mps_id req) (mps_table db) = Some mps"
    and none: "\<forall>l \<in> set (schedule_items db mps). active_bom db (product_id l) = None"
  shows "\<exists>run db'. create_mrp_run limit now db req = Inr (run, db') \<and> created_items db db' = []"
proof -
  obtain r db1 where add: "add_mrp_run db
                 \<lparr>run_pk = 0,
                  run_name = rc_name req,
                  run_mps_id = rc_mps_id req,
                  run_date = now,
                  lead_time_factor = rc_lead_time_factor req,
                  include_safety_stock = rc_include_safety_stock req\<rparr> = (r, db1)"
    by (cases "add_mrp_run db
                 \<lparr>run_pk = 0,
                  run_name = rc_name req,
                  run_mps_id = rc_mps_id req,
                  run_date = now,
                  lead_time_factor = rc_lead_time_factor req,
                  include_safety_stock = rc_include_safety_stock req\<rparr>") blast
  from add have e1: "extends db db1" by (rule add_mrp_run_extends)
  from add have items: "mrp_items db1 = mrp_items db" by (auto simp: add_mrp_run_def Let_def)
  from none have "\<forall>l \<in> set (schedule_items db mps). active_bom db1 (product_id l) = None"
    by (simp add: extends_queries[OF e1])
  then have "process_mps_items limit db1 (schedule_items db mps) r req = Inr db1"
    by (rule process_mps_items_no_bom)
  with mps add have "create_mrp_run limit now db req = Inr (r, db1)"
    by (simp add: create_mrp_run_def)
  moreover from items have "created_items db db1 = []" by (simp add: created_items_def)
  ultimately show ?thesis by blast
qed

lemma schedule_lines:
  assumes "find (\<lambda>m. mps_pk m = rc_mps_id req) (mps_table db) = Some mps"
  shows "filter P (schedule_items db mps) =
         filter (\<lambda>l. mi_mps_id l = rc_mps_id req \<and> P l) (mps_items db)"
proof -
  from assms have "mps_pk mps = rc_mps_id req" by (auto simp: find_Some_iff)
  then show ?thesis by (simp add: schedule_items_def conj_commute)
qed

section \<open>Unknown items raise nothing\<close>









lemma mix_idle_mps:
  "find (\<lambda>m. mps_pk m = rc_mps_id (scn_req\<lparr>rc_mps_id := 3\<rparr>)) (mps_table mix_db)
    = Some \<lparr>mps_pk = 3, mps_name = ''idle''\<rparr>"
  by (simp add: mix_db_def)

lemma mix_idle_lines:
  "\<forall>l \<in> set (mps_items mix_db).
     mi_mps_id l = rc_mps_id (scn_req\<lparr>rc_mps_id := 3\<rparr>) \<longrightarrow>
     active_bom mix_db (product_id l) = None"
  by (simp add: mix_db_def active_bom_def)

section \<open>The claims\<close>

text \<open>
  Claim C1. Every row written by \<^verbatim>\<open>create_mrp_run\<close>, top-level or component, has net
  requirement \<open>max 0 (gross + safety_stock - on_hand)\<close>, the safety stock being the reorder
  point of the item when the run includes safety stock. The component rows are computed
  so; for a top-level row \<^verbatim>\<open>create_mrp_run\<close> computes \<open>max 0 (quantity - on_hand)\<close> and
  never reads the flag. The example run includes safety stock and product A has reorder
  point 20: its row has gross requirement 50, 10 on hand and net requirement 40, where the
  formula gives 60.
\<close>

theorem top_level_net_requirement:
  "create_mrp_run 10 0 scn_db scn_req = Inr (scn_run, scn_after) \<and>
   rc_include_safety_stock scn_req \<and>
   map (\<lambda>n. (item_id n, gross_requirement n, projected_on_hand n, net_requirement n))
     (filter (\<lambda>n. parent_id n = None) (created_items scn_db scn_after)) = [(1, 50, 10, 40)] \<and>
   map_option reorder_point (get_item scn_db 1) = Some 20 \<and>
   max 0 (50 + 20 - 10) = (60 :: real)"
proof -
  have "map (\<lambda>n. (item_id n, gross_requirement n, projected_on_hand n, net_requirement n))
     (filter (\<lambda>n. parent_id n = None) scn_items) = [(1, 50, 10, 40)]"
    by (simp add: scn_items_def)
  moreover have "map_option reorder_point (get_item scn_db 1) = Some 20"
    by (simp add: scn_db_def get_item_def)
  moreover have "rc_include_safety_stock scn_req" by (simp add: scn_req_def)
  ultimately show ?thesis using scn_create by (simp add: scn_created)
qed




text \<open>
  Claim C3. \<^verbatim>\<open>read_mrp_results\<close> annotates every row with its level, the distance to its
  top-level ancestor, and with \<open>has_children\<close>, true when some row of the run names it as
  parent. The handler writes level 0 in every row and never returns to it, and it tests
  \<open>has_children\<close> against the dictionary of parents while the loop is still filling it.
  On the rows of the example run, where rows 2 and 4 are children of row 1 and row 3 is a
  child of row 2, every level is 0 and no row has children.
\<close>

theorem read_results_annotation:
  "map_sum id (\<lambda>r. map (\<lambda>i. (res_id i, res_parent_id i, level i, has_children i)) (rr_items r))
     (read_mrp_results scn_after 1) =
   Inr [(1, None, 0, False), (2, Some 1, 0, False), (3, Some 2, 0, False), (4, Some 1, 0, False)]"
  by (simp add: read_mrp_results_def scn_after_def scn_db_def scn_run_def scn_items_def
      run_rows_def result_item_def Let_def)

text \<open>
  Claim C4, as stated: a component whose item is not in the inventory still gets a row,
  with nothing on hand. In the example the bill of materials of A has the components 2,
  3 and 9, item 9 is not in the inventory, the run completes, and its rows are for the
  items 1, 2, 4 and 3: none for item 9.
\<close>

theorem missing_component_counterexample:
  "create_mrp_run 10 0 scn_db scn_req = Inr (scn_run, scn_after) \<and>
   map component_id (components_of scn_db 1) = [2, 3, 9] \<and>
   get_item scn_db 9 = None \<and>
   map item_id (created_items scn_db scn_after) = [1, 2, 4, 3]"
proof -
  have "map component_id (components_of scn_db 1) = [2, 3, 9]"
    by (simp add: scn_db_def components_of_def)
  moreover have "get_item scn_db 9 = None" by (simp add: scn_db_def get_item_def)
  moreover have "map item_id scn_items = [1, 2, 4, 3]" by (simp add: scn_items_def)
  ultimately show ?thesis using scn_create by (simp add: scn_created)
qed

text \<open>
  Claim C4, amended. A component whose item is not in the inventory is passed over: the
  loop goes on with the remaining components as if it were not there, and the run does
  not fail for it. Hence every component row of a completed run has its item in the
  inventory, and its projected on-hand quantity is the quantity on hand of that item.
\<close>

theorem missing_component_skipped:
  "(get_item db (component_id c) = None \<longrightarrow>
      process_components d db (c # cs) p rid rq pq ltf iss =
      process_components d db cs p rid rq pq ltf iss) \<and>
   (create_mrp_run limit now db mrp_run = Inr (run, db') \<longrightarrow>
      (\<forall>n \<in> set (created_items db db'). parent_id n \<noteq> None \<longrightarrow>
         (\<exists>it. get_item db (item_id n) = Some it \<and> projected_on_hand n = quantity_on_hand it)))"
proof (intro conjI impI ballI)
  assume "get_item db (component_id c) = None"
  then show "process_components d db (c # cs) p rid rq pq ltf iss =
      process_components d db cs p rid rq pq ltf iss" by simp
next
  fix n
  assume ok: "create_mrp_run limit now db mrp_run = Inr (run, db')"
    and n: "n \<in> set (created_items db db')" and pn: "parent_id n \<noteq> None"
  from create_mrp_run_rows[OF ok] n obtain mps where
    ext: "extends db db'" and
    nok: "node_ok (rc_lead_time_factor mrp_run) (rc_include_safety_stock mrp_run)
            (schedule_items db mps) db db' n"
    by blast
  from child_ok_item[OF node_ok_child[OF nok pn]] obtain it where
    "get_item db' (item_id n) = Some it" "projected_on_hand n = quantity_on_hand it"
    by blast
  then show "\<exists>it. get_item db (item_id n) = Some it \<and> projected_on_hand n = quantity_on_hand it"
    by (simp add: extends_queries[OF ext])
qed

theorem missing_component_skipped_witness:
  "get_item scn_db 9 = None \<and>
   process_components 5 scn_db [\<lparr>bc_id = 3, bc_bom_id = 1, component_id = 9, bc_quantity = 3\<rparr>]
     (hd scn_items) 1 (738885 * us_per_day) 40 (Finite 2) True = Inr scn_db \<and>
   create_mrp_run 10 0 scn_db scn_req = Inr (scn_run, scn_after) \<and>
   list_all (\<lambda>n. parent_id n \<noteq> None \<longrightarrow>
      (\<exists>it. get_item scn_db (item_id n) = Some it \<and> projected_on_hand n = quantity_on_hand it))
     scn_items"
proof -
  have g: "get_item scn_db 9 = None" by (simp add: scn_db_def get_item_def)
  note t = missing_component_skipped[where db = scn_db
      and c = "\<lparr>bc_id = 3, bc_bom_id = 1, component_id = 9, bc_quantity = 3\<rparr>" and d = 5
      and cs = "[]" and p = "hd scn_items" and rid = 1 and rq = "738885 * us_per_day"
      and pq = 40 and ltf = "Finite 2"
      and iss = True and limit = 10 and now = 0 and mrp_run = scn_req and run = scn_run
      and db' = scn_after]
  have g': "get_item scn_db
      (component_id \<lparr>bc_id = 3, bc_bom_id = 1, component_id = 9, bc_quantity = 3\<rparr>) = None"
    using g by simp
  from t[THEN conjunct1, THEN mp, OF g'] have "process_components 5 scn_db
      [\<lparr>bc_id = 3, bc_bom_id = 1, component_id = 9, bc_quantity = 3\<rparr>]
      (hd scn_items) 1 (738885 * us_per_day) 40 (Finite 2) True = Inr scn_db" by simp
  moreover from t[THEN conjunct2, THEN mp, OF scn_create]
  have "list_all (\<lambda>n. parent_id n \<noteq> None \<longrightarrow>
      (\<exists>it. get_item scn_db (item_id n) = Some it \<and> projected_on_hand n = quantity_on_hand it))
     scn_items"
    by (simp only: scn_created list_all_iff)
  ultimately show ?thesis using g scn_create by (simp only: simp_thms)
qed

text \<open>
  Claim C5. Take a run that \<^verbatim>\<open>create_mrp_run\<close> completed on a table whose primary keys
  are distinct. Every row of the run that has a parent has it among the rows of the run,
  and for every edge from a parent \<open>p\<close> to a child \<open>n\<close> the bill of materials exploded at
  \<open>p\<close> has a component \<open>c\<close> for the item of \<open>n\<close> such that the gross requirement of \<open>n\<close> is
  the planned order release of \<open>p\<close> times the per-unit quantity of \<open>c\<close>.
\<close>

theorem child_gross_requirement:
  assumes ok: "create_mrp_run limit now db mrp_run = Inr (run, db')"
    and ids: "distinct (map mrp_id (mrp_items db))"
  shows "\<forall>n \<in> set (created_items db db').
           (parent_id n \<noteq> None \<longrightarrow>
              (\<exists>p \<in> set (created_items db db'). parent_id n = Some (mrp_id p))) \<and>
           (\<forall>p \<in> set (mrp_items db'). parent_id n = Some (mrp_id p) \<longrightarrow>
              (\<exists>b c. bom_id p = Some b \<and> c \<in> set (components_of db b) \<and>
                     component_id c = item_id n \<and>
                     gross_requirement n = planned_order_release p * bc_quantity c))"
proof
  fix n
  assume n: "n \<in> set (created_items db db')"
  from create_mrp_run_rows[OF ok] ids n obtain mps where
    ext: "extends db db'" and
    nok: "node_ok (rc_lead_time_factor mrp_run) (rc_include_safety_stock mrp_run)
            (schedule_items db mps) db db' n" and
    dis: "distinct (map mrp_id (mrp_items db'))"
    by blast
  note q = extends_queries[OF ext]
  have child: "child_ok (rc_lead_time_factor mrp_run) (rc_include_safety_stock mrp_run) db db' n"
    if "parent_id n \<noteq> None"
    using nok that by (auto simp: node_ok_def top_ok_def)
  have ex: "\<exists>p \<in> set (created_items db db'). parent_id n = Some (mrp_id p)"
    if "parent_id n \<noteq> None"
    using child[OF that] unfolding child_ok_def by blast
  have edge: "\<exists>b c. bom_id p = Some b \<and> c \<in> set (components_of db b) \<and>
                     component_id c = item_id n \<and>
                     gross_requirement n = planned_order_release p * bc_quantity c"
    if p: "p \<in> set (mrp_items db')" and pn: "parent_id n = Some (mrp_id p)" for p
  proof -
    from pn have "parent_id n \<noteq> None" by simp
    from child[OF this] obtain p0 b c where
      p0: "p0 \<in> set (created_items db db')" "parent_id n = Some (mrp_id p0)"
      and f: "bom_id p0 = Some b" "c \<in> set (components_of db' b)" "item_id n = component_id c"
        "gross_requirement n = planned_order_release p0 * bc_quantity c"
      unfolding child_ok_def by blast
    from p0(1) created_subset[OF ext] have "p0 \<in> set (mrp_items db')" by blast
    moreover from p0(2) pn have "mrp_id p0 = mrp_id p" by simp
    ultimately have "p0 = p" using dis p by (intro distinct_ids_eq[of "mrp_items db'"])
    with f show ?thesis by (auto simp: q)
  qed
  from ex edge show "(parent_id n \<noteq> None \<longrightarrow>
              (\<exists>p \<in> set (created_items db db'). parent_id n = Some (mrp_id p))) \<and>
           (\<forall>p \<in> set (mrp_items db'). parent_id n = Some (mrp_id p) \<longrightarrow>
              (\<exists>b c. bom_id p = Some b \<and> c \<in> set (components_of db b) \<and>
                     component_id c = item_id n \<and>
                     gross_requirement n = planned_order_release p * bc_quantity c))"
    by blast
qed

theorem child_gross_requirement_witness:
  "create_mrp_run 10 0 scn_db scn_req = Inr (scn_run, scn_after) \<and>
   distinct (map mrp_id (mrp_items scn_db)) \<and>
   list_all (\<lambda>n.
      (parent_id n \<noteq> None \<longrightarrow> (\<exists>p \<in> set scn_items. parent_id n = Some (mrp_id p))) \<and>
      (\<forall>p \<in> set (mrp_items scn_after). parent_id n = Some (mrp_id p) \<longrightarrow>
         (\<exists>b c. bom_id p = Some b \<and> c \<in> set (components_of scn_db b) \<and>
                component_id c = item_id n \<and>
                gross_requirement n = planned_order_release p * bc_quantity c))) scn_items"
  using child_gross_requirement[OF scn_create scn_distinct] scn_create scn_distinct
  by (simp only: scn_created list_all_iff simp_thms)




text \<open>
  Claim C7, as stated: \<open>is_critical\<close> holds exactly when the projected on-hand quantity
  is below the gross requirement. For a component row the code also asks for a positive
  net requirement. With safety stock included and reorder point \<open>-100\<close>, the row of B has 5
  on hand against a gross requirement of 10 and is not critical.
\<close>

theorem critical_flag_counterexample:
  "create_mrp_run 10 0 neg_db scn_req = Inr (scn_run, neg_after) \<and>
   map (\<lambda>n. (item_id n, projected_on_hand n, gross_requirement n, is_critical n))
     (created_items neg_db neg_after) = [(1, 0, 10, True), (2, 5, 10, False)]"
proof -
  have "map (\<lambda>n. (item_id n, projected_on_hand n, gross_requirement n, is_critical n)) neg_items
      = [(1, 0, 10, True), (2, 5, 10, False)]"
    by (simp add: neg_items_def)
  then show ?thesis using neg_create by (simp add: neg_created)
qed

text \<open>
  Claim C7, amended. In a completed run that leaves safety stock out, or on an inventory
  without negative reorder points, every row is critical exactly when its projected
  on-hand quantity is below its gross requirement.
\<close>

theorem critical_flag:
  assumes ok: "create_mrp_run limit now db mrp_run = Inr (run, db')"
    and rp: "rc_include_safety_stock mrp_run \<longrightarrow> (\<forall>i \<in> set (inventory db). 0 \<le> reorder_point i)"
  shows "\<forall>n \<in> set (created_items db db').
           is_critical n = (projected_on_hand n < gross_requirement n)"
proof
  fix n
  assume n: "n \<in> set (created_items db db')"
  let ?ltf = "rc_lead_time_factor mrp_run" and ?iss = "rc_include_safety_stock mrp_run"
  from create_mrp_run_rows[OF ok] n obtain mps where
    ext: "extends db db'" and
    nok: "node_ok ?ltf ?iss (schedule_items db mps) db db' n"
    by blast
  from nok show "is_critical n = (projected_on_hand n < gross_requirement n)"
    unfolding node_ok_def
  proof
    assume "top_ok ?ltf (schedule_items db mps) db' n"
    then show ?thesis unfolding top_ok_def by blast
  next
    assume "child_ok ?ltf ?iss db db' n"
    from child_ok_item[OF this] obtain it where it: "get_item db' (item_id n) = Some it"
      and oh: "projected_on_hand n = quantity_on_hand it"
      and net: "net_requirement n =
          max 0 (gross_requirement n + (if ?iss then reorder_point it else 0) - quantity_on_hand it)"
      and cr: "is_critical n = (net_requirement n > 0 \<and> projected_on_hand n < gross_requirement n)"
      by blast
    from it have "it \<in> set (inventory db)"
      by (auto simp: extends_queries[OF ext] get_item_def find_Some_iff)
    with rp have "0 \<le> (if ?iss then reorder_point it else 0)" by auto
    with oh net cr show ?thesis by auto
  qed
qed

theorem critical_flag_witness:
  "create_mrp_run 10 0 scn_db scn_req = Inr (scn_run, scn_after) \<and>
   rc_include_safety_stock scn_req \<and>
   list_all (\<lambda>i. 0 \<le> reorder_point i) (inventory scn_db) \<and>
   list_all (\<lambda>n. is_critical n = (projected_on_hand n < gross_requirement n)) scn_items"
proof -
  have rp: "rc_include_safety_stock scn_req \<longrightarrow> (\<forall>i \<in> set (inventory scn_db). 0 \<le> reorder_point i)"
    by (simp add: scn_db_def)
  have iss: "rc_include_safety_stock scn_req" by (simp add: scn_req_def)
  from critical_flag[OF scn_create rp] scn_create rp iss show ?thesis
    by (simp only: scn_created list_all_iff simp_thms)
qed

text \<open>
  Claim C8. A line whose product has no active bill of materials is passed over: the
  loop goes on with the remaining lines in the same session, so the line writes no row and
  raises nothing. The number of top-level rows (rows without parent) of a completed run
  is the number of rows of the table of schedule lines that belong to the MPS of the
  request and whose product has an active bill of materials. When no line of that MPS has
  one, the run completes without a row.
\<close>

theorem top_level_count:
  "(active_bom db (product_id l) = None \<longrightarrow>
      process_mps_items limit db (l # ls) run mrp_run = process_mps_items limit db ls run mrp_run) \<and>
   (create_mrp_run limit now db mrp_run = Inr (run, db') \<longrightarrow>
      length (filter (\<lambda>n. parent_id n = None) (created_items db db')) =
      length (filter (\<lambda>l. mi_mps_id l = rc_mps_id mrp_run \<and> active_bom db (product_id l) \<noteq> None)
                (mps_items db))) \<and>
   (find (\<lambda>m. mps_pk m = rc_mps_id mrp_run) (mps_table db) = Some mps \<and>
    (\<forall>l \<in> set (mps_items db).
       mi_mps_id l = rc_mps_id mrp_run \<longrightarrow> active_bom db (product_id l) = None) \<longrightarrow>
      (\<exists>run db'. create_mrp_run limit now db mrp_run = Inr (run, db') \<and>
                 created_items db db' = []))"
proof (intro conjI impI)
  assume "active_bom db (product_id l) = None"
  then show "process_mps_items limit db (l # ls) run mrp_run =
      process_mps_items limit db ls run mrp_run" by simp
next
  assume ok: "create_mrp_run limit now db mrp_run = Inr (run, db')"
  from create_mrp_run_rows[OF ok] obtain mps0 where
    m0: "find (\<lambda>m. mps_pk m = rc_mps_id mrp_run) (mps_table db) = Some mps0" and
    n: "length (filter (\<lambda>n. parent_id n = None) (created_items db db')) =
        length (filter (\<lambda>l. active_bom db (product_id l) \<noteq> None) (schedule_items db mps0))"
    by blast
  from n show "length (filter (\<lambda>n. parent_id n = None) (created_items db db')) =
      length (filter (\<lambda>l. mi_mps_id l = rc_mps_id mrp_run \<and> active_bom db (product_id l) \<noteq> None)
                (mps_items db))"
    by (simp only: schedule_lines[OF m0])
next
  assume a: "find (\<lambda>m. mps_pk m = rc_mps_id mrp_run) (mps_table db) = Some mps \<and>
    (\<forall>l \<in> set (mps_items db).
       mi_mps_id l = rc_mps_id mrp_run \<longrightarrow> active_bom db (product_id l) = None)"
  then have m: "find (\<lambda>m. mps_pk m = rc_mps_id mrp_run) (mps_table db) = Some mps" ..
  then have "mps_pk mps = rc_mps_id mrp_run" by (auto simp: find_Some_iff)
  with a have "\<forall>l \<in> set (schedule_items db mps). active_bom db (product_id l) = None"
    by (simp add: schedule_items_def)
  with m show "\<exists>run db'. create_mrp_run limit now db mrp_run = Inr (run, db') \<and>
                 created_items db db' = []"
    by (rule create_mrp_run_no_bom)
qed

theorem top_level_count_witness:
  "active_bom mix_db 3 = None \<and>
   process_mps_items 10 mix_db
     [\<lparr>mi_id = 1, mi_mps_id = 1, product_id = 3, planned_date = 738885 * us_per_day, mi_quantity = 7\<rparr>,
      \<lparr>mi_id = 3, mi_mps_id = 1, product_id = 1, planned_date = 738885 * us_per_day, mi_quantity = 50\<rparr>]
     scn_run scn_req =
   process_mps_items 10 mix_db
     [\<lparr>mi_id = 3, mi_mps_id = 1, product_id = 1, planned_date = 738885 * us_per_day, mi_quantity = 50\<rparr>]
     scn_run scn_req \<and>
   create_mrp_run 10 0 mix_db scn_req = Inr (scn_run, mix_after) \<and>
   length (filter (\<lambda>n. parent_id n = None) mix_items) = 2 \<and>
   length (filter (\<lambda>l. mi_mps_id l = rc_mps_id scn_req \<and> active_bom mix_db (product_id l) \<noteq> None)
             (mps_items mix_db)) = 2 \<and>
   length (filter (\<lambda>l. mi_mps_id l = rc_mps_id scn_req) (mps_items mix_db)) = 4 \<and>
   length (mps_items mix_db) = 6 \<and>
   find (\<lambda>m. mps_pk m = rc_mps_id (scn_req\<lparr>rc_mps_id := 3\<rparr>)) (mps_table mix_db)
     = Some \<lparr>mps_pk = 3, mps_name = ''idle''\<rparr> \<and>
   list_all (\<lambda>l. mi_mps_id l = rc_mps_id (scn_req\<lparr>rc_mps_id := 3\<rparr>) \<longrightarrow>
                active_bom mix_db (product_id l) = None) (mps_items mix_db) \<and>
   (\<exists>run db'. create_mrp_run 10 0 mix_db (scn_req\<lparr>rc_mps_id := 3\<rparr>) = Inr (run, db') \<and>
               created_items mix_db db' = [])"
proof -
  have n3: "active_bom mix_db 3 = None" by (simp add: mix_db_def active_bom_def)
  have n3': "active_bom mix_db (product_id
      \<lparr>mi_id = 1, mi_mps_id = 1, product_id = 3, planned_date = 738885 * us_per_day,
         mi_quantity = 7\<rparr>) = None"
    using n3 by simp
  note t1 = top_level_count[where db = mix_db and mrp_run = scn_req and limit = 10 and now = 0
      and run = scn_run and db' = mix_after
      and l = "\<lparr>mi_id = 1, mi_mps_id = 1, product_id = 3, planned_date = 738885 * us_per_day,
         mi_quantity = 7\<rparr>"
      and ls = "[\<lparr>mi_id = 3, mi_mps_id = 1, product_id = 1,
         planned_date = 738885 * us_per_day, mi_quantity = 50\<rparr>]"]
  note a = t1[THEN conjunct1, THEN mp, OF n3']
  from t1[THEN conjunct2, THEN conjunct1, THEN mp, OF mix_create]
  have eq: "length (filter (\<lambda>n. parent_id n = None) mix_items) =
      length (filter (\<lambda>l. mi_mps_id l = rc_mps_id scn_req \<and>
                active_bom mix_db (product_id l) \<noteq> None) (mps_items mix_db))"
    by (simp only: mix_created)
  have b: "length (filter (\<lambda>n. parent_id n = None) mix_items) = 2"
    by (simp add: mix_items_def)
  from eq b have c: "length (filter (\<lambda>l. mi_mps_id l = rc_mps_id scn_req \<and>
      active_bom mix_db (product_id l) \<noteq> None) (mps_items mix_db)) = 2" by simp
  have d: "length (filter (\<lambda>l. mi_mps_id l = rc_mps_id scn_req) (mps_items mix_db)) = 4"
    "length (mps_items mix_db) = 6"
    by (simp_all add: mix_db_def scn_req_def)
  note t2 = top_level_count[where db = mix_db and mrp_run = "scn_req\<lparr>rc_mps_id := 3\<rparr>"
      and limit = 10 and now = 0 and mps = "\<lparr>mps_pk = 3, mps_name = ''idle''\<rparr>"]
  from t2[THEN conjunct2, THEN conjunct2, THEN mp, OF conjI[OF mix_idle_mps mix_idle_lines]]
  have e: "\<exists>run db'. create_mrp_run 10 0 mix_db (scn_req\<lparr>rc_mps_id := 3\<rparr>) = Inr (run, db') \<and>
               created_items mix_db db' = []" .
  have f: "list_all (\<lambda>l. mi_mps_id l = rc_mps_id (scn_req\<lparr>rc_mps_id := 3\<rparr>) \<longrightarrow>
                active_bom mix_db (product_id l) = None) (mps_items mix_db)"
    using mix_idle_lines by (simp only: list_all_iff)
  from n3 a mix_create b c d mix_idle_mps f e show ?thesis by blast
qed

text \<open>
  Claim C9, as stated: the release date is the required date minus \<open>lead_time_factor\<close>
  days. \<^verbatim>\<open>timedelta\<close> rounds to the microsecond and has a range, and so has \<^verbatim>\<open>datetime\<close>:
  for the factor \<open>1 / 2 ^ 40\<close> the calculator returns the required date itself, for the
  factors \<open>10 ^ 10\<close> and \<open>10 ^ 6\<close> it raises \<^verbatim>\<open>OverflowError\<close> (the offset is too large, the
  date would lie before year 1), and for \<^verbatim>\<open>nan\<close> it raises \<^verbatim>\<open>ValueError\<close>.
\<close>

theorem release_date_offset_counterexample:
  "calculate_release_date (738885 * us_per_day) None (Finite (1 / 1099511627776))
     = Inr (738885 * us_per_day) \<and>
   calculate_release_date (738885 * us_per_day) None (Finite 10000000000) = Inl OverflowError \<and>
   calculate_release_date (738885 * us_per_day) None (Finite 1000000) = Inl OverflowError \<and>
   calculate_release_date (738885 * us_per_day) None NaN = Inl ValueError"
  by (simp add: calculate_release_date_timedelta timedelta_def datetime_minus_def
      valid_datetime_def round_half_even_def us_per_day_def Let_def)

text \<open>
  Claim C9, amended. The calculator takes \<open>lead_time_days = 1\<close> for every item, no item
  having a lead-time attribute: it returns the required date minus
  \<^verbatim>\<open>timedelta(days=lead_time_factor)\<close> and raises what these two operations raise. When
  \<open>lead_time_factor\<close> days are a whole number \<open>k\<close> of microseconds in the range of
  \<^verbatim>\<open>timedelta\<close>, and the date \<open>k\<close> microseconds before the required date exists, that date is
  returned. Whenever a date is returned for a finite factor, it is a date that Python can
  hold and less than a microsecond away from the exact difference. Every row of a
  completed run has as order release date what the calculator returns for its required
  date and the factor of the request.
\<close>

theorem release_date_offset:
  "calculate_release_date required item ltf =
     (case timedelta ltf of Inl e \<Rightarrow> Inl e | Inr delta \<Rightarrow> datetime_minus required delta) \<and>
   (x * of_int us_per_day = of_int k \<and>
    - 999999999 \<le> k div us_per_day \<and> k div us_per_day \<le> 999999999 \<and>
    valid_datetime (required - k) \<longrightarrow>
      calculate_release_date required item (Finite x) = Inr (required - k)) \<and>
   (calculate_release_date required item (Finite x) = Inr d \<longrightarrow>
      valid_datetime d \<and> \<bar>of_int (required - d) - x * of_int us_per_day\<bar> < 1) \<and>
   (create_mrp_run limit now db mrp_run = Inr (run, db') \<longrightarrow>
      (\<forall>n \<in> set (created_items db db').
         calculate_release_date (required_date n) None (rc_lead_time_factor mrp_run) =
         Inr (order_release_date n)))"
proof (intro conjI impI ballI)
  show "calculate_release_date required item ltf =
     (case timedelta ltf of Inl e \<Rightarrow> Inl e | Inr delta \<Rightarrow> datetime_minus required delta)"
    by (rule calculate_release_date_timedelta)
next
  assume "x * of_int us_per_day = of_int k \<and>
    - 999999999 \<le> k div us_per_day \<and> k div us_per_day \<le> 999999999 \<and>
    valid_datetime (required - k)"
  then show "calculate_release_date required item (Finite x) = Inr (required - k)"
    by (intro calculate_release_date_exact) blast+
next
  assume "calculate_release_date required item (Finite x) = Inr d"
  then show "valid_datetime d"
    by (rule calculate_release_date_Finite(2))
next
  assume "calculate_release_date required item (Finite x) = Inr d"
  then have "\<bar>of_int (required - d) - x * of_int us_per_day\<bar> \<le> 1 / 2"
    by (rule calculate_release_date_Finite(3))
  then show "\<bar>of_int (required - d) - x * of_int us_per_day\<bar> < 1" by simp
next
  fix n
  assume ok: "create_mrp_run limit now db mrp_run = Inr (run, db')"
    and n: "n \<in> set (created_items db db')"
  from create_mrp_run_rows[OF ok] n obtain mps where
    "node_ok (rc_lead_time_factor mrp_run) (rc_include_safety_stock mrp_run)
       (schedule_items db mps) db db' n"
    by blast
  then show "calculate_release_date (required_date n) None (rc_lead_time_factor mrp_run) =
         Inr (order_release_date n)"
    unfolding node_ok_def top_ok_def child_ok_def by auto
qed

theorem release_date_offset_witness:
  "(2::real) * of_int us_per_day = of_int (2 * us_per_day) \<and>
   - 999999999 \<le> 2 * us_per_day div us_per_day \<and> 2 * us_per_day div us_per_day \<le> 999999999 \<and>
   valid_datetime (738885 * us_per_day - 2 * us_per_day) \<and>
   calculate_release_date (738885 * us_per_day) None (Finite 2)
     = Inr (738885 * us_per_day - 2 * us_per_day) \<and>
   \<bar>of_int (738885 * us_per_day - (738885 * us_per_day - 2 * us_per_day))
      - 2 * real_of_int us_per_day\<bar> < 1 \<and>
   create_mrp_run 10 0 scn_db scn_req = Inr (scn_run, scn_after) \<and>
   list_all (\<lambda>n. calculate_release_date (required_date n) None (Finite 2)
                  = Inr (order_release_date n)) scn_items"
proof -
  have h: "(2::real) * of_int us_per_day = of_int (2 * us_per_day) \<and>
    - 999999999 \<le> 2 * us_per_day div us_per_day \<and> 2 * us_per_day div us_per_day \<le> 999999999 \<and>
    valid_datetime (738885 * us_per_day - 2 * us_per_day)"
    by (simp add: us_per_day_def valid_datetime_def)
  note t = release_date_offset[where required = "738885 * us_per_day" and item = None
      and x = 2 and k = "2 * us_per_day" and d = "738885 * us_per_day - 2 * us_per_day"
      and limit = 10 and now = 0 and db = scn_db and mrp_run = scn_req and run = scn_run
      and db' = scn_after]
  from t[THEN conjunct2, THEN conjunct1, THEN mp, OF h]
  have r: "calculate_release_date (738885 * us_per_day) None (Finite 2)
     = Inr (738885 * us_per_day - 2 * us_per_day)" .
  from t[THEN conjunct2, THEN conjunct2, THEN conjunct1, THEN mp, OF r]
  have b: "\<bar>of_int (738885 * us_per_day - (738885 * us_per_day - 2 * us_per_day))
      - 2 * real_of_int us_per_day\<bar> < 1" by (rule conjunct2)
  from t[THEN conjunct2, THEN conjunct2, THEN conjunct2, THEN mp, OF scn_create]
  have c: "list_all (\<lambda>n. calculate_release_date (required_date n) None (Finite 2)
                  = Inr (order_release_date n)) scn_items"
    by (simp add: scn_created list_all_iff scn_req_def)
  from h r b scn_create c show ?thesis by blast
qed



end
